theory Spec2Isabelle
  imports Main
begin

section \<open>JavaScript values\<close>

text \<open>
  The values that travel through the SDK: the arguments of the facade methods, the
  payload objects they build and the messages the transport delivers. An object is an
  association list in the order of its literal. Numbers are the integers (room ids);
  fractions and NaN are not modelled.
\<close>

datatype jsval =
    JUndefined
  | JNull
  | JBool bool
  | JNum int
  | JStr string
  | JObj "(string \<times> jsval) list"

text \<open>\<^verbatim>\<open>!v\<close> is \<open>\<not> truthy v\<close>: the test of every required-field check.\<close>

fun truthy :: "jsval \<Rightarrow> bool" where
  "truthy JUndefined = False"
| "truthy JNull = False"
| "truthy (JBool b) = b"
| "truthy (JNum n) = (n \<noteq> 0)"
| "truthy (JStr s) = (s \<noteq> [])"
| "truthy (JObj kvs) = True"

text \<open>
  Reading a property, \<^verbatim>\<open>o.k\<close>. A missing key reads as undefined. On a boolean, a number
  or a string the names read by this SDK (title, text, token, properties, ...) are not
  defined by the wrapper prototypes, so they read as undefined too. Reading a property
  of undefined or null throws; callers test \<open>object_coercible\<close> first.
\<close>

fun get_prop :: "jsval \<Rightarrow> string \<Rightarrow> jsval" where
  "get_prop (JObj kvs) k = (case map_of kvs k of Some v \<Rightarrow> v | None \<Rightarrow> JUndefined)"
| "get_prop v k = JUndefined"

fun object_coercible :: "jsval \<Rightarrow> bool" where
  "object_coercible JUndefined = False"
| "object_coercible JNull = False"
| "object_coercible v = True"

text \<open>
  A default, \<^verbatim>\<open>x = d\<close> in a parameter list or in a destructuring pattern, replaces
  undefined only: null and the other falsy values are kept.
\<close>

definition dflt :: "jsval \<Rightarrow> jsval \<Rightarrow> jsval" where
  "dflt d v = (if v = JUndefined then d else v)"

text \<open>The i-th positional argument of a call; an argument not passed is undefined.\<close>

fun arg :: "jsval list \<Rightarrow> nat \<Rightarrow> jsval" where
  "arg [] i = JUndefined"
| "arg (v # vs) 0 = v"
| "arg (v # vs) (Suc i) = arg vs i"

section \<open>Errors, promises and completions\<close>

datatype js_error = TypeError | Error string

text \<open>
  A promise is \<^verbatim>\<open>Promise.reject(e)\<close>, the future that the n-th call of the transport's
  \<^verbatim>\<open>send\<close> returned, or the promise of an \<^verbatim>\<open>async\<close> function whose body returned the
  promise p: a new promise, resolved with p.
\<close>

datatype promise = Rejected js_error | SendFuture nat | Async promise

datatype retval = RUndefined | RPromise promise

datatype completion = Throws js_error | Returns retval

text \<open>
  How a promise settles, given how the transport settles each of its futures:
  an \<^verbatim>\<open>async\<close> promise adopts the state of the promise it was resolved with.
\<close>

fun settle :: "(nat \<Rightarrow> js_error + jsval) \<Rightarrow> promise \<Rightarrow> js_error + jsval" where
  "settle reply (Rejected e) = Inl e"
| "settle reply (SendFuture n) = reply n"
| "settle reply (Async p) = settle reply p"

section \<open>The transport\<close>

text \<open>
  The events a LineClient emits. The lifecycle events are the constants
  \<^verbatim>\<open>LineClient.Event.CONNECTED\<close>, ... of the external library; a pushed message comes
  under its own name.
\<close>

datatype lc_event = LC_CONNECTED | LC_DISCONNECTED | LC_ERROR | LC_CONNECTING_ERROR | Message jsval

text \<open>
  The closures this SDK registers on a LineClient: the four of
  \<^verbatim>\<open>SocketKit.bindEvents\<close> and the forwarders of \<^verbatim>\<open>RoomsController.bindEvents\<close>, each
  with the controller it closes over and the public name it emits.
\<close>

datatype handler =
    KitConnected
  | KitDisconnected
  | KitError
  | KitConnectingError
  | RoomsForward nat jsval

text \<open>
  Modelled from the spec: the LineClient of the external package line-socket, which is
  not part of this repository. The spec (section 6) gives its contract:
  \<^verbatim>\<open>send(eventName, payload)\<close> makes one request and returns one future,
  \<^verbatim>\<open>on(eventName, handler)\<close> subscribes a handler, \<^verbatim>\<open>connect()\<close> and \<^verbatim>\<open>disconnect()\<close>
  are fire-and-forget. The record keeps what the SDK did to the client.
\<close>

record line_client =
  lc_endpoint :: jsval
  lc_options :: jsval
  lc_sent :: "(jsval \<times> jsval) list"
  lc_handlers :: "(lc_event \<times> handler) list"
  lc_connect_calls :: nat
  lc_disconnect_calls :: nat

definition new_LineClient :: "jsval \<Rightarrow> jsval \<Rightarrow> line_client" where
  "new_LineClient endpoint options =
     \<lparr>lc_endpoint = endpoint, lc_options = options, lc_sent = [], lc_handlers = [],
      lc_connect_calls = 0, lc_disconnect_calls = 0\<rparr>"

text \<open>
  Modelled from the spec: \<^verbatim>\<open>send\<close> of the LineClient. One call is one request,
  logged with its event name and payload, and returns one new future.
\<close>

definition send :: "jsval \<Rightarrow> jsval \<Rightarrow> line_client \<Rightarrow> promise \<times> line_client" where
  "send eventName payload c =
     (SendFuture (length (lc_sent c)), c\<lparr>lc_sent := lc_sent c @ [(eventName, payload)]\<rparr>)"

text \<open>
  Modelled from the spec: \<^verbatim>\<open>on\<close> of the LineClient. It subscribes the handler to the
  event, after those subscribed before.
\<close>

definition lc_on :: "lc_event \<Rightarrow> handler \<Rightarrow> line_client \<Rightarrow> line_client" where
  "lc_on ev h c = c\<lparr>lc_handlers := lc_handlers c @ [(ev, h)]\<rparr>"

text \<open>\<^verbatim>\<open>return this.client.send(...)\<close> and \<^verbatim>\<open>return Promise.reject(new Error(msg))\<close>.\<close>

definition return_send :: "jsval \<Rightarrow> jsval \<Rightarrow> line_client \<Rightarrow> completion \<times> line_client" where
  "return_send eventName payload c =
     (case send eventName payload c of (p, c') \<Rightarrow> (Returns (RPromise p), c'))"

definition return_reject :: "string \<Rightarrow> line_client \<Rightarrow> completion \<times> line_client" where
  "return_reject msg c = (Returns (RPromise (Rejected (Error msg))), c)"

section \<open>RoomsController\<close>

definition RoomsController_InternalEvents :: jsval where
  "RoomsController_InternalEvents = JObj
     [(''ROOM_EVENT'', JStr ''room_event''),
      (''NEW_ROOM_CREATED'', JStr ''new_room_created''),
      (''JOINED_TO_ROOM'', JStr ''joined_to_room''),
      (''ROOM_UPDATED'', JStr ''room_updated''),
      (''GET_CLIENT_ROOMS'', JStr ''get_client_rooms''),
      (''GET_MESSAGES'', JStr ''get_messages''),
      (''SEND_MESSAGE_TO_ROOM'', JStr ''send_message_to_room''),
      (''CREATE_ROOM'', JStr ''create_room''),
      (''ADD_PARTICIPANT'', JStr ''add_participant''),
      (''UPDATE_PARTICIPANT'', JStr ''update_participant''),
      (''UPDATE_ROOM'', JStr ''update_room'')]"

definition RoomsController_Events :: jsval where
  "RoomsController_Events = JObj
     [(''NEW_ROOM_CREATED'', JStr ''new_room_created''),
      (''JOINED_TO_ROOM'', JStr ''joined_to_room''),
      (''ROOM_UPDATED'', JStr ''room_updated''),
      (''MESSAGE_RECEIVED'', JStr ''message_received''),
      (''CLIENT_UPDATED'', JStr ''client_updated''),
      (''ROOM_EVENT'', JStr ''room_event''),
      (''GET_ROOM_INFO'', JStr ''get_room_info''),
      (''SET_TYPING'', JStr ''set_typing'')]"

text \<open>
  \<^verbatim>\<open>create({title, isPrivate = false, allowPostsByDefault = true, properties = {}} = {})\<close>
\<close>

definition RoomsController_create :: "jsval \<Rightarrow> line_client \<Rightarrow> completion \<times> line_client" where
  "RoomsController_create a0 c =
     (let opts = dflt (JObj []) a0 in
      if \<not> object_coercible opts then (Throws TypeError, c)
      else
        let title = get_prop opts ''title'';
            isPrivate = dflt (JBool False) (get_prop opts ''isPrivate'');
            allowPostsByDefault = dflt (JBool True) (get_prop opts ''allowPostsByDefault'');
            properties = dflt (JObj []) (get_prop opts ''properties'')
        in
          if \<not> truthy title then return_reject ''title is required'' c
          else return_send (get_prop RoomsController_InternalEvents ''CREATE_ROOM'')
                 (JObj [(''title'', title), (''private'', isPrivate),
                        (''allowPostsByDefault'', allowPostsByDefault),
                        (''properties'', properties)]) c)"

text \<open>
  \<^verbatim>\<open>sendMessageById(roomId, {text, properties = {} = {}})\<close>: the second parameter has
  no default of its own (the trailing \<^verbatim>\<open>= {}\<close> stands inside the pattern, where
  \<^verbatim>\<open>{} = {}\<close> is the default of properties and evaluates to an empty object), so
  binding the parameters throws a TypeError when the second argument is undefined or
  null, before the body runs.
\<close>

definition RoomsController_sendMessageById ::
  "jsval \<Rightarrow> jsval \<Rightarrow> line_client \<Rightarrow> completion \<times> line_client" where
  "RoomsController_sendMessageById roomId a1 c =
     (if \<not> object_coercible a1 then (Throws TypeError, c)
      else
        let text = get_prop a1 ''text'';
            properties = dflt (JObj []) (get_prop a1 ''properties'')
        in
          if \<not> truthy roomId then return_reject ''roomId is required'' c
          else if \<not> truthy text then return_reject ''text is required'' c
          else return_send (get_prop RoomsController_InternalEvents ''SEND_MESSAGE_TO_ROOM'')
                 (JObj [(''roomId'', roomId), (''text'', text), (''properties'', properties)]) c)"

definition RoomsController_findById :: "jsval \<Rightarrow> line_client \<Rightarrow> completion \<times> line_client" where
  "RoomsController_findById roomId c =
     (if \<not> truthy roomId then return_reject ''roomId is required'' c
      else return_send (get_prop RoomsController_Events ''GET_ROOM_INFO'')
             (JObj [(''roomId'', roomId)]) c)"

definition RoomsController_findAll :: "jsval \<Rightarrow> line_client \<Rightarrow> completion \<times> line_client" where
  "RoomsController_findAll a0 c =
     (let options = dflt (JObj []) a0 in
      return_send (get_prop RoomsController_InternalEvents ''GET_CLIENT_ROOMS'')
        (JObj [(''pagination'', options)]) c)"

definition RoomsController_getMessagesById ::
  "jsval \<Rightarrow> jsval \<Rightarrow> line_client \<Rightarrow> completion \<times> line_client" where
  "RoomsController_getMessagesById roomId a1 c =
     (let options = dflt (JObj []) a1 in
      if \<not> truthy roomId then return_reject ''roomId is required'' c
      else return_send (get_prop RoomsController_InternalEvents ''GET_MESSAGES'')
             (JObj [(''roomId'', roomId), (''pagination'', options)]) c)"

text \<open>\<^verbatim>\<open>updateById(roomId, {title, properties = {}} = {})\<close>\<close>

definition RoomsController_updateById ::
  "jsval \<Rightarrow> jsval \<Rightarrow> line_client \<Rightarrow> completion \<times> line_client" where
  "RoomsController_updateById roomId a1 c =
     (let opts = dflt (JObj []) a1 in
      if \<not> object_coercible opts then (Throws TypeError, c)
      else
        let title = get_prop opts ''title'';
            properties = dflt (JObj []) (get_prop opts ''properties'')
        in
          if \<not> truthy roomId then return_reject ''roomId is required'' c
          else if \<not> truthy title then return_reject ''title is required'' c
          else return_send (get_prop RoomsController_InternalEvents ''UPDATE_ROOM'')
                 (JObj [(''roomId'', roomId), (''title'', title), (''properties'', properties)]) c)"

text \<open>\<^verbatim>\<open>deleteById() {}\<close> and \<^verbatim>\<open>removeMemberById() {}\<close>: empty bodies.\<close>

definition RoomsController_deleteById :: "line_client \<Rightarrow> completion \<times> line_client" where
  "RoomsController_deleteById c = (Returns RUndefined, c)"

definition RoomsController_removeMemberById :: "line_client \<Rightarrow> completion \<times> line_client" where
  "RoomsController_removeMemberById c = (Returns RUndefined, c)"

text \<open>
  \<^verbatim>\<open>addMemberById(roomId, {targetUniqueClientKey, isAllowedToPost, properties = {}} = {})\<close>
\<close>

definition RoomsController_addMemberById ::
  "jsval \<Rightarrow> jsval \<Rightarrow> line_client \<Rightarrow> completion \<times> line_client" where
  "RoomsController_addMemberById roomId a1 c =
     (let opts = dflt (JObj []) a1 in
      if \<not> object_coercible opts then (Throws TypeError, c)
      else
        let targetUniqueClientKey = get_prop opts ''targetUniqueClientKey'';
            isAllowedToPost = get_prop opts ''isAllowedToPost'';
            properties = dflt (JObj []) (get_prop opts ''properties'')
        in
          if \<not> truthy roomId then return_reject ''roomId is required'' c
          else if \<not> truthy targetUniqueClientKey
            then return_reject ''targetUniqueClientKey is required'' c
          else return_send (get_prop RoomsController_InternalEvents ''ADD_PARTICIPANT'')
                 (JObj [(''roomId'', roomId),
                        (''targetUniqueClientKey'', targetUniqueClientKey),
                        (''isAllowedToPost'', isAllowedToPost),
                        (''properties'', properties)]) c)"

text \<open>
  \<^verbatim>\<open>updateMemberById(roomId, {targetUniqueClientKey, isAllowedToPost, properties} = {})\<close>
\<close>

definition RoomsController_updateMemberById ::
  "jsval \<Rightarrow> jsval \<Rightarrow> line_client \<Rightarrow> completion \<times> line_client" where
  "RoomsController_updateMemberById roomId a1 c =
     (let opts = dflt (JObj []) a1 in
      if \<not> object_coercible opts then (Throws TypeError, c)
      else
        let targetUniqueClientKey = get_prop opts ''targetUniqueClientKey'';
            isAllowedToPost = get_prop opts ''isAllowedToPost'';
            properties = get_prop opts ''properties''
        in
          if \<not> truthy roomId then return_reject ''roomId is required'' c
          else if \<not> truthy targetUniqueClientKey
            then return_reject ''targetUniqueClientKey is required'' c
          else return_send (get_prop RoomsController_InternalEvents ''UPDATE_PARTICIPANT'')
                 (JObj [(''roomId'', roomId),
                        (''targetUniqueClientKey'', targetUniqueClientKey),
                        (''isAllowedToPost'', isAllowedToPost),
                        (''properties'', properties)]) c)"

text \<open>Calling a method of the Rooms facade by name, with its positional arguments.\<close>

datatype rooms_method =
    R_create | R_sendMessageById | R_findById | R_findAll | R_getMessagesById
  | R_updateById | R_deleteById | R_addMemberById | R_updateMemberById
  | R_removeMemberById

fun RoomsController_call ::
  "rooms_method \<Rightarrow> jsval list \<Rightarrow> line_client \<Rightarrow> completion \<times> line_client" where
  "RoomsController_call R_create args c = RoomsController_create (arg args 0) c"
| "RoomsController_call R_sendMessageById args c =
     RoomsController_sendMessageById (arg args 0) (arg args 1) c"
| "RoomsController_call R_findById args c = RoomsController_findById (arg args 0) c"
| "RoomsController_call R_findAll args c = RoomsController_findAll (arg args 0) c"
| "RoomsController_call R_getMessagesById args c =
     RoomsController_getMessagesById (arg args 0) (arg args 1) c"
| "RoomsController_call R_updateById args c =
     RoomsController_updateById (arg args 0) (arg args 1) c"
| "RoomsController_call R_deleteById args c = RoomsController_deleteById c"
| "RoomsController_call R_addMemberById args c =
     RoomsController_addMemberById (arg args 0) (arg args 1) c"
| "RoomsController_call R_updateMemberById args c =
     RoomsController_updateMemberById (arg args 0) (arg args 1) c"
| "RoomsController_call R_removeMemberById args c = RoomsController_removeMemberById c"

section \<open>ClientController\<close>

definition ClientController_Events :: jsval where
  "ClientController_Events = JObj
     [(''ADD_CLIENT'', JStr ''add_client''),
      (''UPDATE_CLIENT'', JStr ''update_client''),
      (''DELETE_CLIENT'', JStr ''delete_client''),
      (''GET_CLIENT'', JStr ''get_client''),
      (''GET_CURRENT_CLIENT'', JStr ''get_current_client'')]"

text \<open>\<^verbatim>\<open>create({uniqueClientKey, token, properties} = {})\<close>\<close>

definition ClientController_create :: "jsval \<Rightarrow> line_client \<Rightarrow> completion \<times> line_client" where
  "ClientController_create a0 c =
     (let opts = dflt (JObj []) a0 in
      if \<not> object_coercible opts then (Throws TypeError, c)
      else
        let uniqueClientKey = get_prop opts ''uniqueClientKey'';
            token = get_prop opts ''token'';
            properties = get_prop opts ''properties''
        in
          if \<not> truthy uniqueClientKey then return_reject ''uniqueClientKey is required'' c
          else if \<not> truthy token then return_reject ''token is required'' c
          else if \<not> truthy properties then return_reject ''properties is required'' c
          else return_send (get_prop ClientController_Events ''ADD_CLIENT'')
                 (JObj [(''uniqueClientKey'', uniqueClientKey), (''token'', token),
                        (''properties'', properties)]) c)"

text \<open>\<^verbatim>\<open>upsert(uniqueClientKey, {token, properties} = {})\<close>\<close>

definition ClientController_upsert ::
  "jsval \<Rightarrow> jsval \<Rightarrow> line_client \<Rightarrow> completion \<times> line_client" where
  "ClientController_upsert uniqueClientKey a1 c =
     (let opts = dflt (JObj []) a1 in
      if \<not> object_coercible opts then (Throws TypeError, c)
      else
        let token = get_prop opts ''token'';
            properties = get_prop opts ''properties''
        in
          if \<not> truthy uniqueClientKey then return_reject ''uniqueClientKey is required'' c
          else if \<not> truthy token then return_reject ''token is required'' c
          else if \<not> truthy properties then return_reject ''properties is required'' c
          else return_send (get_prop ClientController_Events ''ADD_CLIENT'')
                 (JObj [(''uniqueClientKey'', uniqueClientKey), (''token'', token),
                        (''properties'', properties), (''upsert'', JBool True)]) c)"

text \<open>
  \<^verbatim>\<open>update(uniqueClientKey, {token, properties} = {})\<close>: token and properties enter
  \<^verbatim>\<open>updateData\<close> only when truthy.
\<close>

definition ClientController_update ::
  "jsval \<Rightarrow> jsval \<Rightarrow> line_client \<Rightarrow> completion \<times> line_client" where
  "ClientController_update uniqueClientKey a1 c =
     (let opts = dflt (JObj []) a1 in
      if \<not> object_coercible opts then (Throws TypeError, c)
      else
        let token = get_prop opts ''token'';
            properties = get_prop opts ''properties''
        in
          if \<not> truthy uniqueClientKey then return_reject ''uniqueClientKey is required'' c
          else
            let updateData0 = [(''uniqueClientKey'', uniqueClientKey)];
                updateData1 = (if truthy token then updateData0 @ [(''token'', token)]
                               else updateData0);
                updateData2 = (if truthy properties
                               then updateData1 @ [(''properties'', properties)]
                               else updateData1)
            in return_send (get_prop ClientController_Events ''UPDATE_CLIENT'')
                 (JObj updateData2) c)"

definition ClientController_delete :: "jsval \<Rightarrow> line_client \<Rightarrow> completion \<times> line_client" where
  "ClientController_delete uniqueClientKey c =
     (if \<not> truthy uniqueClientKey then return_reject ''uniqueClientKey is required'' c
      else return_send (get_prop ClientController_Events ''DELETE_CLIENT'')
             (JObj [(''uniqueClientKey'', uniqueClientKey)]) c)"

definition ClientController_findByKey :: "jsval \<Rightarrow> line_client \<Rightarrow> completion \<times> line_client" where
  "ClientController_findByKey uniqueClientKey c =
     (if \<not> truthy uniqueClientKey then return_reject ''uniqueClientKey is required'' c
      else return_send (get_prop ClientController_Events ''GET_CLIENT'')
             (JObj [(''uniqueClientKey'', uniqueClientKey)]) c)"

text \<open>
  \<^verbatim>\<open>async getCurrent() { return this.client.send(GET_CURRENT_CLIENT); }\<close>: send is
  called with the event name alone, so its payload is undefined, and the caller gets
  the promise of the async function, resolved with the future of send.
\<close>

definition ClientController_getCurrent :: "line_client \<Rightarrow> completion \<times> line_client" where
  "ClientController_getCurrent c =
     (case send (get_prop ClientController_Events ''GET_CURRENT_CLIENT'') JUndefined c of
        (p, c') \<Rightarrow> (Returns (RPromise (Async p)), c'))"

datatype clients_method = C_create | C_upsert | C_update | C_delete | C_findByKey | C_getCurrent

fun ClientController_call ::
  "clients_method \<Rightarrow> jsval list \<Rightarrow> line_client \<Rightarrow> completion \<times> line_client" where
  "ClientController_call C_create args c = ClientController_create (arg args 0) c"
| "ClientController_call C_upsert args c =
     ClientController_upsert (arg args 0) (arg args 1) c"
| "ClientController_call C_update args c =
     ClientController_update (arg args 0) (arg args 1) c"
| "ClientController_call C_delete args c = ClientController_delete (arg args 0) c"
| "ClientController_call C_findByKey args c = ClientController_findByKey (arg args 0) c"
| "ClientController_call C_getCurrent args c = ClientController_getCurrent c"

section \<open>SocketKit\<close>

definition SocketKit_Event :: jsval where
  "SocketKit_Event = JObj
     [(''CONNECTED'', JStr ''connected''),
      (''DISCONNECTED'', JStr ''disconnected''),
      (''ERROR'', JStr ''error''),
      (''CONNECTING_ERROR'', JStr ''connecting_error'')]"

text \<open>
  The objects of one SocketKit instance. \<^verbatim>\<open>new LineClient\<close>, \<^verbatim>\<open>new RoomController\<close>
  and \<^verbatim>\<open>new ClientController\<close> allocate in three stores; a reference is an index
  into its store. The fields \<^verbatim>\<open>client\<close>, \<^verbatim>\<open>Rooms\<close> and \<^verbatim>\<open>Clients\<close> of the instance
  hold such references (\<open>None\<close> for null or undefined), and so does the field
  \<^verbatim>\<open>client\<close> of a controller.

  SocketKit and the two controllers extend EventEmitterExtra: each carries the
  listeners that the application registered with \<^verbatim>\<open>on\<close>, a listener being known by a
  number. What the instance did is logged: the calls of \<^verbatim>\<open>emit\<close>, the listeners
  invoked with their arguments, and the warnings printed.
\<close>

datatype emitter = KitEmitter | RoomsEmitter nat | ClientsEmitter nat

record rooms_controller =
  rc_client :: nat
  rc_listeners :: "(jsval \<times> nat) list"

record client_controller =
  cc_client :: nat
  cc_listeners :: "(jsval \<times> nat) list"

record world =
  kit_token :: jsval
  kit_accountId :: jsval
  kit_endpoint :: jsval
  kit_client :: "nat option"
  isConnected :: bool
  kit_Rooms :: "nat option"
  kit_Clients :: "nat option"
  kit_listeners :: "(jsval \<times> nat) list"
  line_clients :: "line_client list"
  rooms_controllers :: "rooms_controller list"
  client_controllers :: "client_controller list"
  emitted :: "(emitter \<times> jsval \<times> jsval list) list"
  invoked :: "(nat \<times> jsval list) list"
  warnings :: "string list"

text \<open>
  \<^verbatim>\<open>constructor({token, accountId, endpoint = 'wss://ws.socketkit.com'} = {})\<close>
\<close>

definition new_SocketKit :: "jsval \<Rightarrow> js_error + world" where
  "new_SocketKit a0 =
     (let opts = dflt (JObj []) a0 in
      if \<not> object_coercible opts then Inl TypeError
      else Inr
        \<lparr>kit_token = get_prop opts ''token'',
         kit_accountId = get_prop opts ''accountId'',
         kit_endpoint = dflt (JStr ''wss://ws.socketkit.com'') (get_prop opts ''endpoint''),
         kit_client = None,
         isConnected = False,
         kit_Rooms = None,
         kit_Clients = None,
         kit_listeners = [],
         line_clients = [],
         rooms_controllers = [],
         client_controllers = [],
         emitted = [],
         invoked = [],
         warnings = []\<rparr>)"

text \<open>Applying a method of the transport to the LineClient behind a reference.\<close>

definition update_client :: "nat \<Rightarrow> (line_client \<Rightarrow> line_client) \<Rightarrow> world \<Rightarrow> world" where
  "update_client cid f w =
     (if cid < length (line_clients w)
      then w\<lparr>line_clients := (line_clients w)[cid := f (line_clients w ! cid)]\<rparr>
      else w)"

text \<open>
  Modelled from the spec: \<^verbatim>\<open>connect\<close> and \<^verbatim>\<open>disconnect\<close> of the LineClient, fire and
  forget. The lifecycle events they lead to arrive later, as deliveries.
\<close>

definition lc_connect :: "line_client \<Rightarrow> line_client" where
  "lc_connect c = c\<lparr>lc_connect_calls := Suc (lc_connect_calls c)\<rparr>"

definition lc_disconnect :: "line_client \<Rightarrow> line_client" where
  "lc_disconnect c = c\<lparr>lc_disconnect_calls := Suc (lc_disconnect_calls c)\<rparr>"

subsection \<open>The event emitter\<close>

definition listeners_of :: "emitter \<Rightarrow> world \<Rightarrow> (jsval \<times> nat) list" where
  "listeners_of em w =
     (case em of
        KitEmitter \<Rightarrow> kit_listeners w
      | RoomsEmitter r \<Rightarrow>
          (if r < length (rooms_controllers w) then rc_listeners (rooms_controllers w ! r)
           else [])
      | ClientsEmitter k \<Rightarrow>
          (if k < length (client_controllers w) then cc_listeners (client_controllers w ! k)
           else []))"

text \<open>
  Modelled from the spec: \<^verbatim>\<open>emit\<close> and \<^verbatim>\<open>on\<close> of the external package
  event-emitter-extra, which is not part of this repository. The spec (section 4.2)
  gives publish/subscribe semantics: an emission reaches the listeners registered for
  its name, in the order of registration, with the emitted arguments, and with no
  listener registered it is a no-op, never an error.
\<close>

definition emit :: "emitter \<Rightarrow> jsval \<Rightarrow> jsval list \<Rightarrow> world \<Rightarrow> world" where
  "emit em name args w =
     w\<lparr>emitted := emitted w @ [(em, name, args)],
       invoked := invoked w @
         map (\<lambda>(n, l). (l, args)) (filter (\<lambda>(n, l). n = name) (listeners_of em w))\<rparr>"

definition emitter_on :: "emitter \<Rightarrow> jsval \<Rightarrow> nat \<Rightarrow> world \<Rightarrow> world" where
  "emitter_on em name l w =
     (case em of
        KitEmitter \<Rightarrow> w\<lparr>kit_listeners := kit_listeners w @ [(name, l)]\<rparr>
      | RoomsEmitter r \<Rightarrow>
          (if r < length (rooms_controllers w)
           then w\<lparr>rooms_controllers := (rooms_controllers w)
                  [r := (rooms_controllers w ! r)
                     \<lparr>rc_listeners := rc_listeners (rooms_controllers w ! r) @ [(name, l)]\<rparr>]\<rparr>
           else w)
      | ClientsEmitter k \<Rightarrow>
          (if k < length (client_controllers w)
           then w\<lparr>client_controllers := (client_controllers w)
                  [k := (client_controllers w ! k)
                     \<lparr>cc_listeners := cc_listeners (client_controllers w ! k) @ [(name, l)]\<rparr>]\<rparr>
           else w))"

subsection \<open>Constructors of the controllers\<close>

text \<open>
  \<^verbatim>\<open>RoomsController.bindEvents\<close>: four subscriptions on \<^verbatim>\<open>this.client\<close>, each
  under a name of InternalEvents, each forwarding under a name of Events.
\<close>

definition RoomsController_bindEvents :: "nat \<Rightarrow> world \<Rightarrow> world" where
  "RoomsController_bindEvents rid w =
     (if rid < length (rooms_controllers w) then
        let cid = rc_client (rooms_controllers w ! rid);
            w1 = update_client cid
                   (lc_on (Message (get_prop RoomsController_InternalEvents ''ROOM_EVENT''))
                      (RoomsForward rid (get_prop RoomsController_Events ''ROOM_EVENT''))) w;
            w2 = update_client cid
                   (lc_on (Message (get_prop RoomsController_InternalEvents ''NEW_ROOM_CREATED''))
                      (RoomsForward rid (get_prop RoomsController_Events ''NEW_ROOM_CREATED''))) w1;
            w3 = update_client cid
                   (lc_on (Message (get_prop RoomsController_InternalEvents ''JOINED_TO_ROOM''))
                      (RoomsForward rid (get_prop RoomsController_Events ''JOINED_TO_ROOM''))) w2
        in update_client cid
             (lc_on (Message (get_prop RoomsController_InternalEvents ''ROOM_UPDATED''))
                (RoomsForward rid (get_prop RoomsController_Events ''ROOM_UPDATED''))) w3
      else w)"

text \<open>\<^verbatim>\<open>constructor(client) { super(); this.client = client; this.bindEvents(); }\<close>\<close>

definition new_RoomsController :: "nat \<Rightarrow> world \<Rightarrow> nat \<times> world" where
  "new_RoomsController cid w =
     (let rid = length (rooms_controllers w);
          w1 = w\<lparr>rooms_controllers :=
                   rooms_controllers w @ [\<lparr>rc_client = cid, rc_listeners = []\<rparr>]\<rparr>
      in (rid, RoomsController_bindEvents rid w1))"

text \<open>\<^verbatim>\<open>constructor(client) { super(); this.client = client; }\<close>\<close>

definition new_ClientController :: "nat \<Rightarrow> world \<Rightarrow> nat \<times> world" where
  "new_ClientController cid w =
     (let k = length (client_controllers w)
      in (k, w\<lparr>client_controllers :=
                 client_controllers w @ [\<lparr>cc_client = cid, cc_listeners = []\<rparr>]\<rparr>))"

subsection \<open>connect, disconnect and the lifecycle handlers\<close>

text \<open>
  \<^verbatim>\<open>SocketKit.bindEvents\<close>: four subscriptions on \<^verbatim>\<open>this.client\<close>. With
  \<^verbatim>\<open>this.client\<close> null the first \<^verbatim>\<open>this.client.on\<close> throws.
\<close>

definition SocketKit_bindEvents :: "world \<Rightarrow> js_error option \<times> world" where
  "SocketKit_bindEvents w =
     (case kit_client w of
        None \<Rightarrow> (Some TypeError, w)
      | Some cid \<Rightarrow>
          let w1 = update_client cid (lc_on LC_CONNECTED KitConnected) w;
              w2 = update_client cid (lc_on LC_DISCONNECTED KitDisconnected) w1;
              w3 = update_client cid (lc_on LC_ERROR KitError) w2
          in (None, update_client cid (lc_on LC_CONNECTING_ERROR KitConnectingError) w3))"

definition connect :: "world \<Rightarrow> js_error option \<times> world" where
  "connect w =
     (if isConnected w
      then (None, w\<lparr>warnings := warnings w @ [''Client is already connected'']\<rparr>)
      else
        let payload = JObj [(''accountId'', kit_accountId w), (''token'', kit_token w)];
            cid = length (line_clients w);
            w1 = w\<lparr>line_clients := line_clients w @
                     [new_LineClient (kit_endpoint w)
                        (JObj [(''handshake'', JObj [(''payload'', payload)])])],
                   kit_client := Some cid\<rparr>
        in case SocketKit_bindEvents w1 of
             (Some e, w2) \<Rightarrow> (Some e, w2)
           | (None, w2) \<Rightarrow>
               (case kit_client w2 of
                  None \<Rightarrow> (Some TypeError, w2)
                | Some cid2 \<Rightarrow>
                    let w3 = update_client cid2 lc_connect w2 in
                    case new_RoomsController cid2 w3 of
                      (rid, w4) \<Rightarrow>
                        let w5 = w4\<lparr>kit_Rooms := Some rid\<rparr> in
                        case new_ClientController cid2 w5 of
                          (k, w6) \<Rightarrow> (None, w6\<lparr>kit_Clients := Some k\<rparr>)))"

definition disconnect :: "world \<Rightarrow> js_error option \<times> world" where
  "disconnect w =
     (if isConnected w then
        (case kit_client w of
           None \<Rightarrow> (Some TypeError, w)
         | Some cid \<Rightarrow> (None, update_client cid lc_disconnect w))
      else (None, w))"

text \<open>
  The bodies of the closures registered on a LineClient, run with the arguments of the
  event. In each of them \<^verbatim>\<open>this.emit\<close> is the last statement.
\<close>

fun run_handler :: "handler \<Rightarrow> jsval list \<Rightarrow> world \<Rightarrow> js_error option \<times> world" where
  "run_handler KitConnected args w =
     (None, emit KitEmitter (get_prop SocketKit_Event ''CONNECTED'') []
              (w\<lparr>isConnected := True\<rparr>))"
| "run_handler KitDisconnected args w =
     (None, emit KitEmitter (get_prop SocketKit_Event ''DISCONNECTED'')
              [JObj [(''code'', arg args 0), (''reason'', arg args 1)]]
              (w\<lparr>isConnected := False\<rparr>))"
| "run_handler KitError args w =
     (None, emit KitEmitter (get_prop SocketKit_Event ''ERROR'') [arg args 0] w)"
| "run_handler KitConnectingError args w =
     (None, emit KitEmitter (get_prop SocketKit_Event ''CONNECTING_ERROR'') [arg args 0] w)"
| "run_handler (RoomsForward rid name) args w =
     (let message = arg args 0 in
      if \<not> object_coercible message then (Some TypeError, w)
      else (None, emit (RoomsEmitter rid) name [get_prop message ''payload''] w))"

text \<open>
  Modelled from the spec: the LineClient delivering one event. The handlers subscribed
  to the event run in the order of subscription, each with the arguments of the event;
  a handler that throws ends the delivery.
\<close>

fun run_handlers :: "handler list \<Rightarrow> jsval list \<Rightarrow> world \<Rightarrow> js_error option \<times> world" where
  "run_handlers [] args w = (None, w)"
| "run_handlers (h # hs) args w =
     (case run_handler h args w of
        (Some e, w') \<Rightarrow> (Some e, w')
      | (None, w') \<Rightarrow> run_handlers hs args w')"

definition deliver :: "nat \<Rightarrow> lc_event \<Rightarrow> jsval list \<Rightarrow> world \<Rightarrow> js_error option \<times> world" where
  "deliver cid ev args w =
     (if cid < length (line_clients w)
      then run_handlers
             (map snd (filter (\<lambda>(e, h). e = ev) (lc_handlers (line_clients w ! cid)))) args w
      else (None, w))"

subsection \<open>Calling the facades of the instance\<close>

text \<open>
  \<^verbatim>\<open>socketkit.Rooms.m(...args)\<close> and \<^verbatim>\<open>socketkit.Clients.m(...args)\<close>: the method
  runs on the LineClient that the controller's field \<^verbatim>\<open>client\<close> refers to. Before the
  first connect the two fields are undefined and the call throws.
\<close>

definition on_client ::
  "nat \<Rightarrow> (line_client \<Rightarrow> completion \<times> line_client) \<Rightarrow> world \<Rightarrow> completion \<times> world" where
  "on_client cid f w =
     (if cid < length (line_clients w)
      then (case f (line_clients w ! cid) of
              (r, c') \<Rightarrow> (r, w\<lparr>line_clients := (line_clients w)[cid := c']\<rparr>))
      else (Throws TypeError, w))"

definition Rooms_call :: "rooms_method \<Rightarrow> jsval list \<Rightarrow> world \<Rightarrow> completion \<times> world" where
  "Rooms_call m args w =
     (case kit_Rooms w of
        None \<Rightarrow> (Throws TypeError, w)
      | Some rid \<Rightarrow>
          (if rid < length (rooms_controllers w)
           then on_client (rc_client (rooms_controllers w ! rid)) (RoomsController_call m args) w
           else (Throws TypeError, w)))"

definition Clients_call :: "clients_method \<Rightarrow> jsval list \<Rightarrow> world \<Rightarrow> completion \<times> world" where
  "Clients_call m args w =
     (case kit_Clients w of
        None \<Rightarrow> (Throws TypeError, w)
      | Some k \<Rightarrow>
          (if k < length (client_controllers w)
           then on_client (cc_client (client_controllers w ! k)) (ClientController_call m args) w
           else (Throws TypeError, w)))"

subsection \<open>Histories of one instance\<close>

text \<open>
  What can happen to an instance: the application calls \<^verbatim>\<open>connect\<close>, \<^verbatim>\<open>disconnect\<close>,
  \<^verbatim>\<open>getClient\<close>, a facade method or \<^verbatim>\<open>on\<close> (of the instance, of its Rooms or of its
  Clients), or one of the LineClients delivers an event.
\<close>

datatype action =
    Connect
  | Disconnect
  | GetClient
  | Deliver nat lc_event "jsval list"
  | CallRooms rooms_method "jsval list"
  | CallClients clients_method "jsval list"
  | OnKit jsval nat
  | OnRooms jsval nat
  | OnClients jsval nat

fun step :: "world \<Rightarrow> action \<Rightarrow> world" where
  "step w Connect = snd (connect w)"
| "step w Disconnect = snd (disconnect w)"
| "step w GetClient = w"
| "step w (Deliver cid ev args) = snd (deliver cid ev args w)"
| "step w (CallRooms m args) = snd (Rooms_call m args w)"
| "step w (CallClients m args) = snd (Clients_call m args w)"
| "step w (OnKit name l) = emitter_on KitEmitter name l w"
| "step w (OnRooms name l) =
     (case kit_Rooms w of None \<Rightarrow> w | Some rid \<Rightarrow> emitter_on (RoomsEmitter rid) name l w)"
| "step w (OnClients name l) =
     (case kit_Clients w of None \<Rightarrow> w | Some k \<Rightarrow> emitter_on (ClientsEmitter k) name l w)"

definition run :: "world \<Rightarrow> action list \<Rightarrow> world" where
  "run w as = foldl step w as"
section \<open>Vocabulary of the properties\<close>

subsection \<open>Facade operations and their required fields\<close>

datatype facade_method = RoomsM rooms_method | ClientsM clients_method

fun facade_call ::
  "facade_method \<Rightarrow> jsval list \<Rightarrow> line_client \<Rightarrow> completion \<times> line_client" where
  "facade_call (RoomsM m) args c = RoomsController_call m args c"
| "facade_call (ClientsM m) args c = ClientController_call m args c"

fun instance_call :: "facade_method \<Rightarrow> jsval list \<Rightarrow> world \<Rightarrow> completion \<times> world" where
  "instance_call (RoomsM m) args w = Rooms_call m args w"
| "instance_call (ClientsM m) args w = Clients_call m args w"

text \<open>
  The required fields of each operation, as its documentation marks them, in the order
  of declaration and with the value a call gives them: a positional argument, or a
  field of the options argument (undefined when the field or the whole argument is
  missing).
\<close>

fun required :: "facade_method \<Rightarrow> jsval list \<Rightarrow> (string \<times> jsval) list" where
  "required (RoomsM R_create) args = [(''title'', get_prop (arg args 0) ''title'')]"
| "required (RoomsM R_sendMessageById) args =
     [(''roomId'', arg args 0), (''text'', get_prop (arg args 1) ''text'')]"
| "required (RoomsM R_findById) args = [(''roomId'', arg args 0)]"
| "required (RoomsM R_getMessagesById) args = [(''roomId'', arg args 0)]"
| "required (RoomsM R_updateById) args =
     [(''roomId'', arg args 0), (''title'', get_prop (arg args 1) ''title'')]"
| "required (RoomsM R_addMemberById) args =
     [(''roomId'', arg args 0),
      (''targetUniqueClientKey'', get_prop (arg args 1) ''targetUniqueClientKey'')]"
| "required (RoomsM R_updateMemberById) args =
     [(''roomId'', arg args 0),
      (''targetUniqueClientKey'', get_prop (arg args 1) ''targetUniqueClientKey'')]"
| "required (ClientsM C_create) args =
     [(''uniqueClientKey'', get_prop (arg args 0) ''uniqueClientKey''),
      (''token'', get_prop (arg args 0) ''token''),
      (''properties'', get_prop (arg args 0) ''properties'')]"
| "required (ClientsM C_upsert) args =
     [(''uniqueClientKey'', arg args 0),
      (''token'', get_prop (arg args 1) ''token''),
      (''properties'', get_prop (arg args 1) ''properties'')]"
| "required (ClientsM C_update) args = [(''uniqueClientKey'', arg args 0)]"
| "required (ClientsM C_delete) args = [(''uniqueClientKey'', arg args 0)]"
| "required (ClientsM C_findByKey) args = [(''uniqueClientKey'', arg args 0)]"
| "required m args = []"

text \<open>The first required field whose value is falsy, an absent field among them.\<close>

fun first_missing :: "(string \<times> jsval) list \<Rightarrow> string option" where
  "first_missing [] = None"
| "first_missing ((n, v) # fs) = (if truthy v then first_missing fs else Some n)"

text \<open>The argument that an operation takes apart as its options object, if it has one.\<close>

fun options_arg :: "facade_method \<Rightarrow> jsval list \<Rightarrow> jsval option" where
  "options_arg (RoomsM R_create) args = Some (arg args 0)"
| "options_arg (RoomsM R_sendMessageById) args = Some (arg args 1)"
| "options_arg (RoomsM R_updateById) args = Some (arg args 1)"
| "options_arg (RoomsM R_addMemberById) args = Some (arg args 1)"
| "options_arg (RoomsM R_updateMemberById) args = Some (arg args 1)"
| "options_arg (ClientsM C_create) args = Some (arg args 0)"
| "options_arg (ClientsM C_upsert) args = Some (arg args 1)"
| "options_arg (ClientsM C_update) args = Some (arg args 1)"
| "options_arg m args = None"

definition options_not_null :: "facade_method \<Rightarrow> jsval list \<Rightarrow> bool" where
  "options_not_null m args =
     (case options_arg m args of None \<Rightarrow> True | Some v \<Rightarrow> v \<noteq> JNull)"

fun is_placeholder :: "facade_method \<Rightarrow> bool" where
  "is_placeholder (RoomsM R_deleteById) = True"
| "is_placeholder (RoomsM R_removeMemberById) = True"
| "is_placeholder m = False"

text \<open>
  The internal event identifiers as section 6 of the specification enumerates them.
\<close>

definition section6_room_identifiers :: "jsval list" where
  "section6_room_identifiers = map JStr
     [''room_event'', ''new_room_created'', ''joined_to_room'', ''room_updated'',
      ''get_client_rooms'', ''get_messages'', ''send_message_to_room'', ''create_room'',
      ''add_participant'', ''update_participant'', ''update_room'']"

definition section6_client_identifiers :: "jsval list" where
  "section6_client_identifiers = map JStr
     [''add_client'', ''update_client'', ''delete_client'', ''get_client'',
      ''get_current_client'']"

fun documented_identifiers :: "facade_method \<Rightarrow> jsval list" where
  "documented_identifiers (RoomsM m) = section6_room_identifiers"
| "documented_identifiers (ClientsM m) = section6_client_identifiers"

subsection \<open>Outcomes of a call\<close>

text \<open>A call fails loudly when it throws or returns a rejected promise.\<close>

fun fails_loudly :: "completion \<Rightarrow> bool" where
  "fails_loudly (Throws e) = True"
| "fails_loudly (Returns (RPromise (Rejected e))) = True"
| "fails_loudly r = False"

text \<open>
  The outcomes a method body can have on a LineClient: it leaves the client alone and
  throws a TypeError, returns undefined or returns a rejected promise; or it calls
  \<^verbatim>\<open>send\<close> once and returns the future of that call, wrapped by an async function
  when \<open>asyn\<close> holds.
\<close>

definition shape :: "bool \<Rightarrow> line_client \<Rightarrow> completion \<times> line_client \<Rightarrow> bool" where
  "shape asyn c rc \<longleftrightarrow>
     (snd rc = c \<and> (fst rc = Throws TypeError \<or> fst rc = Returns RUndefined
        \<or> (\<exists>msg. fst rc = Returns (RPromise (Rejected (Error msg))))))
   \<or> (\<exists>ev payload. snd rc = snd (send ev payload c)
        \<and> fst rc = Returns (RPromise (if asyn then Async (fst (send ev payload c))
                                      else fst (send ev payload c))))"

subsection \<open>Well-formed instances and lifecycle events\<close>

text \<open>
  What \<^verbatim>\<open>SocketKit.bindEvents\<close> and \<^verbatim>\<open>RoomsController.bindEvents\<close> leave on a
  LineClient, with the names of the event tables looked up.
\<close>

definition kit_subscriptions :: "(lc_event \<times> handler) list" where
  "kit_subscriptions =
     [(LC_CONNECTED, KitConnected), (LC_DISCONNECTED, KitDisconnected),
      (LC_ERROR, KitError), (LC_CONNECTING_ERROR, KitConnectingError)]"

definition rooms_subscriptions :: "nat \<Rightarrow> (lc_event \<times> handler) list" where
  "rooms_subscriptions rid =
     [(Message (JStr ''room_event''), RoomsForward rid (JStr ''room_event'')),
      (Message (JStr ''new_room_created''), RoomsForward rid (JStr ''new_room_created'')),
      (Message (JStr ''joined_to_room''), RoomsForward rid (JStr ''joined_to_room'')),
      (Message (JStr ''room_updated''), RoomsForward rid (JStr ''room_updated''))]"

text \<open>
  The invariant of an instance: every connect that went through allocated one
  LineClient and one controller of each kind, at the same index; each LineClient
  carries the subscriptions of the instance and of its Rooms controller, once; the
  fields of the instance refer to the objects of the last such connect.
\<close>

definition wf :: "world \<Rightarrow> bool" where
  "wf w \<longleftrightarrow>
     length (rooms_controllers w) = length (line_clients w)
   \<and> length (client_controllers w) = length (line_clients w)
   \<and> (\<forall>i < length (line_clients w).
        lc_handlers (line_clients w ! i) = kit_subscriptions @ rooms_subscriptions i
      \<and> rc_client (rooms_controllers w ! i) = i
      \<and> cc_client (client_controllers w ! i) = i)
   \<and> (kit_client w = None \<longrightarrow>
        line_clients w = [] \<and> kit_Rooms w = None \<and> kit_Clients w = None)
   \<and> (\<forall>cid. kit_client w = Some cid \<longrightarrow>
        Suc cid = length (line_clients w) \<and> kit_Rooms w = Some cid
      \<and> kit_Clients w = Some cid)"

text \<open>
  The lifecycle event that an action brings to the instance: CONNECTED (\<open>True\<close>) or
  DISCONNECTED (\<open>False\<close>) from a LineClient that exists. \<open>last_lifecycle\<close> is the last
  one along a history.
\<close>

fun lifecycle :: "world \<Rightarrow> action \<Rightarrow> bool option" where
  "lifecycle w (Deliver cid LC_CONNECTED args) =
     (if cid < length (line_clients w) then Some True else None)"
| "lifecycle w (Deliver cid LC_DISCONNECTED args) =
     (if cid < length (line_clients w) then Some False else None)"
| "lifecycle w a = None"

fun last_lifecycle :: "world \<Rightarrow> action list \<Rightarrow> bool option" where
  "last_lifecycle w [] = None"
| "last_lifecycle w (a # as) =
     (case last_lifecycle (step w a) as of Some b \<Rightarrow> Some b | None \<Rightarrow> lifecycle w a)"

subsection \<open>Concrete inputs\<close>

text \<open>
  A LineClient that nothing was done to; the instance that
  \<^verbatim>\<open>new SocketKit({token: 'abc', accountId: 1})\<close> builds; and that instance after
  \<^verbatim>\<open>connect()\<close>, a listener (number 7) registered on its Rooms for
  \<^verbatim>\<open>new_room_created\<close>, and the CONNECTED event of its LineClient.
\<close>

definition c0 :: line_client where
  "c0 = new_LineClient (JStr ''wss://ws.socketkit.com'') (JObj [])"

definition kit0 :: world where
  "kit0 =
     \<lparr>kit_token = JStr ''abc'', kit_accountId = JNum 1,
      kit_endpoint = JStr ''wss://ws.socketkit.com'', kit_client = None,
      isConnected = False, kit_Rooms = None, kit_Clients = None, kit_listeners = [],
      line_clients = [], rooms_controllers = [], client_controllers = [],
      emitted = [], invoked = [], warnings = []\<rparr>"

definition listening_kit :: world where
  "listening_kit =
     run kit0 [Connect, OnRooms (JStr ''new_room_created'') 7, Deliver 0 LC_CONNECTED []]"

section \<open>What each method sends\<close>

lemma dflt_obj_coercible: "object_coercible (dflt (JObj []) v) = (v \<noteq> JNull)"
  by (cases v) (simp_all add: dflt_def)

lemma get_prop_dflt_empty: "get_prop (dflt (JObj []) v) k = get_prop v k"
  by (cases v) (simp_all add: dflt_def)

lemma truthy_get_prop_not_null: "truthy (get_prop v k) \<Longrightarrow> v \<noteq> JNull"
  by (cases v) simp_all

lemma create_sends:
  assumes "truthy (get_prop a0 ''title'')"
  shows "RoomsController_create a0 c =
     return_send (JStr ''create_room'')
       (JObj [(''title'', get_prop a0 ''title''),
              (''private'', dflt (JBool False) (get_prop a0 ''isPrivate'')),
              (''allowPostsByDefault'', dflt (JBool True) (get_prop a0 ''allowPostsByDefault'')),
              (''properties'', dflt (JObj []) (get_prop a0 ''properties''))]) c"
  using assms truthy_get_prop_not_null[OF assms]
  by (simp add: RoomsController_create_def Let_def dflt_obj_coercible get_prop_dflt_empty
      RoomsController_InternalEvents_def)

lemma sendMessageById_sends:
  assumes "truthy roomId" and "truthy (get_prop a1 ''text'')"
  shows "RoomsController_sendMessageById roomId a1 c =
     return_send (JStr ''send_message_to_room'')
       (JObj [(''roomId'', roomId), (''text'', get_prop a1 ''text''),
              (''properties'', dflt (JObj []) (get_prop a1 ''properties''))]) c"
proof -
  have "object_coercible a1" using assms(2) by (cases a1) simp_all
  then show ?thesis using assms
    by (simp add: RoomsController_sendMessageById_def Let_def RoomsController_InternalEvents_def)
qed

lemma findById_sends:
  assumes "truthy roomId"
  shows "RoomsController_findById roomId c =
     return_send (JStr ''get_room_info'') (JObj [(''roomId'', roomId)]) c"
  using assms by (simp add: RoomsController_findById_def RoomsController_Events_def)

lemma findAll_sends:
  "RoomsController_findAll a0 c =
     return_send (JStr ''get_client_rooms'') (JObj [(''pagination'', dflt (JObj []) a0)]) c"
  by (simp add: RoomsController_findAll_def Let_def RoomsController_InternalEvents_def)

lemma getMessagesById_sends:
  assumes "truthy roomId"
  shows "RoomsController_getMessagesById roomId a1 c =
     return_send (JStr ''get_messages'')
       (JObj [(''roomId'', roomId), (''pagination'', dflt (JObj []) a1)]) c"
  using assms
  by (simp add: RoomsController_getMessagesById_def Let_def RoomsController_InternalEvents_def)

lemma updateById_sends:
  assumes "truthy roomId" and "truthy (get_prop a1 ''title'')"
  shows "RoomsController_updateById roomId a1 c =
     return_send (JStr ''update_room'')
       (JObj [(''roomId'', roomId), (''title'', get_prop a1 ''title''),
              (''properties'', dflt (JObj []) (get_prop a1 ''properties''))]) c"
  using assms truthy_get_prop_not_null[OF assms(2)]
  by (simp add: RoomsController_updateById_def Let_def dflt_obj_coercible get_prop_dflt_empty
      RoomsController_InternalEvents_def)

lemma addMemberById_sends:
  assumes "truthy roomId" and "truthy (get_prop a1 ''targetUniqueClientKey'')"
  shows "RoomsController_addMemberById roomId a1 c =
     return_send (JStr ''add_participant'')
       (JObj [(''roomId'', roomId),
              (''targetUniqueClientKey'', get_prop a1 ''targetUniqueClientKey''),
              (''isAllowedToPost'', get_prop a1 ''isAllowedToPost''),
              (''properties'', dflt (JObj []) (get_prop a1 ''properties''))]) c"
  using assms truthy_get_prop_not_null[OF assms(2)]
  by (simp add: RoomsController_addMemberById_def Let_def dflt_obj_coercible get_prop_dflt_empty
      RoomsController_InternalEvents_def)

lemma updateMemberById_sends:
  assumes "truthy roomId" and "truthy (get_prop a1 ''targetUniqueClientKey'')"
  shows "RoomsController_updateMemberById roomId a1 c =
     return_send (JStr ''update_participant'')
       (JObj [(''roomId'', roomId),
              (''targetUniqueClientKey'', get_prop a1 ''targetUniqueClientKey''),
              (''isAllowedToPost'', get_prop a1 ''isAllowedToPost''),
              (''properties'', get_prop a1 ''properties'')]) c"
  using assms truthy_get_prop_not_null[OF assms(2)]
  by (simp add: RoomsController_updateMemberById_def Let_def dflt_obj_coercible
      get_prop_dflt_empty RoomsController_InternalEvents_def)

lemma Clients_create_sends:
  assumes "truthy (get_prop a0 ''uniqueClientKey'')" and "truthy (get_prop a0 ''token'')"
    and "truthy (get_prop a0 ''properties'')"
  shows "ClientController_create a0 c =
     return_send (JStr ''add_client'')
       (JObj [(''uniqueClientKey'', get_prop a0 ''uniqueClientKey''),
              (''token'', get_prop a0 ''token''),
              (''properties'', get_prop a0 ''properties'')]) c"
  using assms truthy_get_prop_not_null[OF assms(2)]
  by (simp add: ClientController_create_def Let_def dflt_obj_coercible get_prop_dflt_empty
      ClientController_Events_def)

lemma upsert_sends:
  assumes "truthy k" and "truthy (get_prop a1 ''token'')"
    and "truthy (get_prop a1 ''properties'')"
  shows "ClientController_upsert k a1 c =
     return_send (JStr ''add_client'')
       (JObj [(''uniqueClientKey'', k),
              (''token'', get_prop a1 ''token''),
              (''properties'', get_prop a1 ''properties''),
              (''upsert'', JBool True)]) c"
  using assms truthy_get_prop_not_null[OF assms(2)]
  by (simp add: ClientController_upsert_def Let_def dflt_obj_coercible get_prop_dflt_empty
      ClientController_Events_def)

lemma update_sends:
  assumes "truthy k" and "a1 \<noteq> JNull"
  shows "ClientController_update k a1 c =
     return_send (JStr ''update_client'')
       (JObj ([(''uniqueClientKey'', k)]
              @ (if truthy (get_prop a1 ''token'') then [(''token'', get_prop a1 ''token'')] else [])
              @ (if truthy (get_prop a1 ''properties'')
                 then [(''properties'', get_prop a1 ''properties'')] else []))) c"
  using assms
  by (simp add: ClientController_update_def Let_def dflt_obj_coercible get_prop_dflt_empty
      ClientController_Events_def)

lemma delete_sends:
  assumes "truthy k"
  shows "ClientController_delete k c =
     return_send (JStr ''delete_client'') (JObj [(''uniqueClientKey'', k)]) c"
  using assms by (simp add: ClientController_delete_def ClientController_Events_def)

lemma findByKey_sends:
  assumes "truthy k"
  shows "ClientController_findByKey k c =
     return_send (JStr ''get_client'') (JObj [(''uniqueClientKey'', k)]) c"
  using assms by (simp add: ClientController_findByKey_def ClientController_Events_def)

lemma getCurrent_sends:
  "ClientController_getCurrent c =
     (Returns (RPromise (Async (fst (send (JStr ''get_current_client'') JUndefined c)))),
      snd (send (JStr ''get_current_client'') JUndefined c))"
  by (simp add: ClientController_getCurrent_def ClientController_Events_def split: prod.split)

lemma return_send_eq:
  "return_send ev payload c =
     (Returns (RPromise (SendFuture (length (lc_sent c)))),
      c\<lparr>lc_sent := lc_sent c @ [(ev, payload)]\<rparr>)"
  by (simp add: return_send_def send_def)

section \<open>One request per validated call\<close>

lemma call_resultI:
  assumes "facade_call m args c = return_send ev payload c"
    and "m \<noteq> ClientsM C_getCurrent" and "Q ev"
  shows "\<exists>ev payload q c'. send ev payload c = (q, c')
         \<and> facade_call m args c =
             (Returns (RPromise (if m = ClientsM C_getCurrent then Async q else q)), c')
         \<and> Q ev"
  using assms
  by (intro exI[of _ ev] exI[of _ payload] exI[of _ "fst (send ev payload c)"]
        exI[of _ "snd (send ev payload c)"])
    (simp add: return_send_def split_beta)

lemma validated_call_result:
  assumes "first_missing (required m args) = None"
    and "options_not_null m args"
    and "\<not> is_placeholder m"
  shows "\<exists>ev payload q c'. send ev payload c = (q, c')
         \<and> facade_call m args c =
             (Returns (RPromise (if m = ClientsM C_getCurrent then Async q else q)), c')
         \<and> (if m = RoomsM R_findById then ev = JStr ''get_room_info''
            else ev \<in> set (documented_identifiers m))"
proof (cases m)
  case (RoomsM r)
  show ?thesis
  proof (cases r)
    case R_create
    show ?thesis
      by (insert RoomsM R_create assms)
        (rule call_resultI,
         simp add: create_sends split: if_splits,
         simp,
         simp add: section6_room_identifiers_def)
  next
    case R_sendMessageById
    show ?thesis
      by (insert RoomsM R_sendMessageById assms)
        (rule call_resultI,
         simp add: sendMessageById_sends split: if_splits,
         simp,
         simp add: section6_room_identifiers_def)
  next
    case R_findById
    show ?thesis
      by (insert RoomsM R_findById assms)
        (rule call_resultI,
         simp add: findById_sends split: if_splits,
         simp,
         simp)
  next
    case R_findAll
    show ?thesis
      by (insert RoomsM R_findAll assms)
        (rule call_resultI,
         simp add: findAll_sends split: if_splits,
         simp,
         simp add: section6_room_identifiers_def)
  next
    case R_getMessagesById
    show ?thesis
      by (insert RoomsM R_getMessagesById assms)
        (rule call_resultI,
         simp add: getMessagesById_sends split: if_splits,
         simp,
         simp add: section6_room_identifiers_def)
  next
    case R_updateById
    show ?thesis
      by (insert RoomsM R_updateById assms)
        (rule call_resultI,
         simp add: updateById_sends split: if_splits,
         simp,
         simp add: section6_room_identifiers_def)
  next
    case R_deleteById
    with RoomsM assms show ?thesis by simp
  next
    case R_addMemberById
    show ?thesis
      by (insert RoomsM R_addMemberById assms)
        (rule call_resultI,
         simp add: addMemberById_sends split: if_splits,
         simp,
         simp add: section6_room_identifiers_def)
  next
    case R_updateMemberById
    show ?thesis
      by (insert RoomsM R_updateMemberById assms)
        (rule call_resultI,
         simp add: updateMemberById_sends split: if_splits,
         simp,
         simp add: section6_room_identifiers_def)
  next
    case R_removeMemberById
    with RoomsM assms show ?thesis by simp
  qed
next
  case (ClientsM k)
  show ?thesis
  proof (cases k)
    case C_create
    show ?thesis
      by (insert ClientsM C_create assms)
        (rule call_resultI,
         simp add: Clients_create_sends split: if_splits,
         simp,
         simp add: section6_client_identifiers_def)
  next
    case C_upsert
    show ?thesis
      by (insert ClientsM C_upsert assms)
        (rule call_resultI,
         simp add: upsert_sends split: if_splits,
         simp,
         simp add: section6_client_identifiers_def)
  next
    case C_update
    show ?thesis
      by (insert ClientsM C_update assms)
        (rule call_resultI,
         simp add: update_sends options_not_null_def split: if_splits,
         simp,
         simp add: section6_client_identifiers_def)
  next
    case C_delete
    show ?thesis
      by (insert ClientsM C_delete assms)
        (rule call_resultI,
         simp add: delete_sends split: if_splits,
         simp,
         simp add: section6_client_identifiers_def)
  next
    case C_findByKey
    show ?thesis
      by (insert ClientsM C_findByKey assms)
        (rule call_resultI,
         simp add: findByKey_sends split: if_splits,
         simp,
         simp add: section6_client_identifiers_def)
  next
    case C_getCurrent
    show ?thesis
      unfolding ClientsM C_getCurrent
      by (intro exI[of _ "JStr ''get_current_client''"] exI[of _ JUndefined]
            exI[of _ "fst (send (JStr ''get_current_client'') JUndefined c)"]
            exI[of _ "snd (send (JStr ''get_current_client'') JUndefined c)"])
        (simp add: getCurrent_sends section6_client_identifiers_def)
  qed
qed

lemma placeholder_call:
  assumes "is_placeholder m"
  shows "facade_call m args c = (Returns RUndefined, c)"
proof (cases m)
  case (RoomsM r)
  with assms show ?thesis
    by (cases r)
      (simp_all add: RoomsController_deleteById_def RoomsController_removeMemberById_def)
next
  case (ClientsM k)
  with assms show ?thesis by simp
qed

section \<open>Missing and falsy required fields\<close>

lemma object_coercible_iff: "object_coercible v \<longleftrightarrow> v \<noteq> JUndefined \<and> v \<noteq> JNull"
  by (cases v) simp_all

lemma missing_rejected:
  assumes "first_missing (required m args) = Some n"
    and "options_not_null m args"
    and "m = RoomsM R_sendMessageById \<longrightarrow> arg args 1 \<noteq> JUndefined"
  shows "facade_call m args c = (Returns (RPromise (Rejected (Error (n @ '' is required'')))), c)"
proof (cases m)
  case (RoomsM r)
  show ?thesis
  proof (cases r)
    case R_create
    show ?thesis using RoomsM R_create assms
      by (simp add: RoomsController_create_def Let_def dflt_obj_coercible get_prop_dflt_empty
          return_reject_def options_not_null_def split: if_splits)
  next
    case R_sendMessageById
    show ?thesis using RoomsM R_sendMessageById assms
      by (simp add: RoomsController_sendMessageById_def Let_def object_coercible_iff
          return_reject_def options_not_null_def split: if_splits)
  next
    case R_findById
    show ?thesis using RoomsM R_findById assms
      by (simp add: RoomsController_findById_def return_reject_def split: if_splits)
  next
    case R_findAll
    show ?thesis using RoomsM R_findAll assms by simp
  next
    case R_getMessagesById
    show ?thesis using RoomsM R_getMessagesById assms
      by (simp add: RoomsController_getMessagesById_def Let_def return_reject_def split: if_splits)
  next
    case R_updateById
    show ?thesis using RoomsM R_updateById assms
      by (simp add: RoomsController_updateById_def Let_def dflt_obj_coercible get_prop_dflt_empty
          return_reject_def options_not_null_def split: if_splits)
  next
    case R_deleteById
    show ?thesis using RoomsM R_deleteById assms by simp
  next
    case R_addMemberById
    show ?thesis using RoomsM R_addMemberById assms
      by (simp add: RoomsController_addMemberById_def Let_def dflt_obj_coercible
          get_prop_dflt_empty return_reject_def options_not_null_def split: if_splits)
  next
    case R_updateMemberById
    show ?thesis using RoomsM R_updateMemberById assms
      by (simp add: RoomsController_updateMemberById_def Let_def dflt_obj_coercible
          get_prop_dflt_empty return_reject_def options_not_null_def split: if_splits)
  next
    case R_removeMemberById
    show ?thesis using RoomsM R_removeMemberById assms by simp
  qed
next
  case (ClientsM k)
  show ?thesis
  proof (cases k)
    case C_create
    show ?thesis using ClientsM C_create assms
      by (simp add: ClientController_create_def Let_def dflt_obj_coercible get_prop_dflt_empty
          return_reject_def options_not_null_def split: if_splits)
  next
    case C_upsert
    show ?thesis using ClientsM C_upsert assms
      by (simp add: ClientController_upsert_def Let_def dflt_obj_coercible get_prop_dflt_empty
          return_reject_def options_not_null_def split: if_splits)
  next
    case C_update
    show ?thesis using ClientsM C_update assms
      by (simp add: ClientController_update_def Let_def dflt_obj_coercible get_prop_dflt_empty
          return_reject_def options_not_null_def split: if_splits)
  next
    case C_delete
    show ?thesis using ClientsM C_delete assms
      by (simp add: ClientController_delete_def return_reject_def split: if_splits)
  next
    case C_findByKey
    show ?thesis using ClientsM C_findByKey assms
      by (simp add: ClientController_findByKey_def return_reject_def split: if_splits)
  next
    case C_getCurrent
    show ?thesis using ClientsM C_getCurrent assms by simp
  qed
qed

lemma roomId_zero_rejected:
  assumes "m \<in> {R_findById, R_sendMessageById, R_getMessagesById, R_updateById,
                R_addMemberById, R_updateMemberById}"
    and "options_not_null (RoomsM m) (JNum 0 # rest)"
    and "m = R_sendMessageById \<longrightarrow> arg rest 0 \<noteq> JUndefined"
  shows "facade_call (RoomsM m) (JNum 0 # rest) c =
           (Returns (RPromise (Rejected (Error ''roomId is required''))), c)"
proof -
  have "first_missing (required (RoomsM m) (JNum 0 # rest)) = Some ''roomId''"
    using assms(1) by auto
  from missing_rejected[OF this assms(2)] assms(3) show ?thesis by simp
qed

lemma empty_key_rejected:
  assumes "m \<in> {C_findByKey, C_delete, C_update, C_upsert}"
    and "options_not_null (ClientsM m) (JStr [] # rest)"
  shows "facade_call (ClientsM m) (JStr [] # rest) c =
           (Returns (RPromise (Rejected (Error ''uniqueClientKey is required''))), c)"
proof -
  have "first_missing (required (ClientsM m) (JStr [] # rest)) = Some ''uniqueClientKey''"
    using assms(1) by auto
  from missing_rejected[OF this assms(2)] show ?thesis by simp
qed

lemma create_empty_key_rejected:
  "facade_call (ClientsM C_create) [JObj ((''uniqueClientKey'', JStr []) # kvs)] c =
     (Returns (RPromise (Rejected (Error ''uniqueClientKey is required''))), c)"
  using missing_rejected[of "ClientsM C_create"
      "[JObj ((''uniqueClientKey'', JStr []) # kvs)]" "''uniqueClientKey''" c]
  by (simp add: options_not_null_def)

lemma empty_properties_pass:
  assumes "truthy k" and "truthy t"
  shows "facade_call (ClientsM C_create)
           [JObj [(''uniqueClientKey'', k), (''token'', t), (''properties'', JObj [])]] c =
         (Returns (RPromise (SendFuture (length (lc_sent c)))),
          c\<lparr>lc_sent := lc_sent c @
            [(JStr ''add_client'',
              JObj [(''uniqueClientKey'', k), (''token'', t), (''properties'', JObj [])])]\<rparr>)"
  using assms by (simp add: Clients_create_sends return_send_eq)

section \<open>Invariants of an instance\<close>

lemma kit0_new: "new_SocketKit (JObj [(''token'', JStr ''abc''), (''accountId'', JNum 1)]) = Inr kit0"
  by (simp add: new_SocketKit_def kit0_def dflt_def)

lemma wf_new: "new_SocketKit a0 = Inr w0 \<Longrightarrow> wf w0"
  by (auto simp: new_SocketKit_def wf_def Let_def split: if_splits)

lemma connect_fresh:
  assumes "\<not> isConnected w"
    and "length (rooms_controllers w) = length (line_clients w)"
    and "length (client_controllers w) = length (line_clients w)"
  shows "connect w = (None,
     w\<lparr>line_clients := line_clients w @
          [\<lparr>lc_endpoint = kit_endpoint w,
            lc_options = JObj [(''handshake'', JObj [(''payload'',
               JObj [(''accountId'', kit_accountId w), (''token'', kit_token w)])])],
            lc_sent = [],
            lc_handlers = kit_subscriptions @ rooms_subscriptions (length (line_clients w)),
            lc_connect_calls = 1, lc_disconnect_calls = 0\<rparr>],
        kit_client := Some (length (line_clients w)),
        rooms_controllers := rooms_controllers w @
          [\<lparr>rc_client = length (line_clients w), rc_listeners = []\<rparr>],
        kit_Rooms := Some (length (line_clients w)),
        client_controllers := client_controllers w @
          [\<lparr>cc_client = length (line_clients w), cc_listeners = []\<rparr>],
        kit_Clients := Some (length (line_clients w))\<rparr>)"
  using assms
  by (simp add: connect_def SocketKit_bindEvents_def update_client_def Let_def new_LineClient_def
      lc_on_def lc_connect_def new_RoomsController_def RoomsController_bindEvents_def
      new_ClientController_def kit_subscriptions_def rooms_subscriptions_def
      RoomsController_InternalEvents_def RoomsController_Events_def)

lemma wf_connect: "wf w \<Longrightarrow> wf (snd (connect w))"
proof (cases "isConnected w")
  case True
  assume "wf w"
  with True show ?thesis by (simp add: connect_def wf_def)
next
  case False
  assume w: "wf w"
  then have l: "length (rooms_controllers w) = length (line_clients w)"
    "length (client_controllers w) = length (line_clients w)"
    by (simp_all add: wf_def)
  show ?thesis
    using w unfolding connect_fresh[OF False l]
    by (auto simp: wf_def nth_append less_Suc_eq)
qed

lemma connect_isConnected: "isConnected (snd (connect w)) = isConnected w"
  by (simp add: connect_def SocketKit_bindEvents_def update_client_def Let_def
      new_RoomsController_def RoomsController_bindEvents_def new_ClientController_def
      split: option.split prod.split)

lemma disconnect_isConnected: "isConnected (snd (disconnect w)) = isConnected w"
  by (simp add: disconnect_def update_client_def split: option.split)

lemma wf_disconnect: "wf w \<Longrightarrow> wf (snd (disconnect w))"
  by (auto simp: disconnect_def update_client_def wf_def lc_disconnect_def nth_list_update
      split: option.split)

lemma on_client_frame:
  "on_client cid f w = (r, w') \<Longrightarrow>
     w' = w \<or> (cid < length (line_clients w) \<and>
               w' = w\<lparr>line_clients := (line_clients w)[cid := snd (f (line_clients w ! cid))]\<rparr>)"
  by (auto simp: on_client_def split: if_splits prod.splits)

lemma Rooms_call_frame:
  "\<exists>cid. snd (Rooms_call m args w) = w \<or> (cid < length (line_clients w) \<and>
     snd (Rooms_call m args w) =
       w\<lparr>line_clients := (line_clients w)[cid := snd (RoomsController_call m args (line_clients w ! cid))]\<rparr>)"
  by (auto simp: Rooms_call_def on_client_def split: option.split prod.split)

lemma Clients_call_frame:
  "\<exists>cid. snd (Clients_call m args w) = w \<or> (cid < length (line_clients w) \<and>
     snd (Clients_call m args w) =
       w\<lparr>line_clients := (line_clients w)[cid := snd (ClientController_call m args (line_clients w ! cid))]\<rparr>)"
  by (auto simp: Clients_call_def on_client_def split: option.split prod.split)

lemma Rooms_call_isConnected: "isConnected (snd (Rooms_call m args w)) = isConnected w"
  using Rooms_call_frame[of m args w] by auto

lemma Clients_call_isConnected: "isConnected (snd (Clients_call m args w)) = isConnected w"
  using Clients_call_frame[of m args w] by auto

lemma shape_reject: "shape False c (return_reject msg c)"
  by (simp add: shape_def return_reject_def)

lemma shape_send: "shape False c (return_send ev payload c)"
  unfolding shape_def
  by (rule disjI2, rule exI[of _ ev], rule exI[of _ payload])
    (simp add: return_send_def split_beta)

lemma shape_throw: "shape False c (Throws TypeError, c)"
  by (simp add: shape_def)

lemma shape_undef: "shape False c (Returns RUndefined, c)"
  by (simp add: shape_def)

lemmas shape_intros = shape_reject shape_send shape_throw shape_undef

lemma shape_rooms: "shape False c (RoomsController_call m args c)"
proof (cases m)
  case R_create
  then show ?thesis by (simp add: RoomsController_create_def Let_def shape_intros)
next
  case R_sendMessageById
  then show ?thesis by (simp add: RoomsController_sendMessageById_def Let_def shape_intros)
next
  case R_findById
  then show ?thesis by (simp add: RoomsController_findById_def Let_def shape_intros)
next
  case R_findAll
  then show ?thesis by (simp add: RoomsController_findAll_def Let_def shape_intros)
next
  case R_getMessagesById
  then show ?thesis by (simp add: RoomsController_getMessagesById_def Let_def shape_intros)
next
  case R_updateById
  then show ?thesis by (simp add: RoomsController_updateById_def Let_def shape_intros)
next
  case R_deleteById
  then show ?thesis by (simp add: RoomsController_deleteById_def Let_def shape_intros)
next
  case R_addMemberById
  then show ?thesis by (simp add: RoomsController_addMemberById_def Let_def shape_intros)
next
  case R_updateMemberById
  then show ?thesis by (simp add: RoomsController_updateMemberById_def Let_def shape_intros)
next
  case R_removeMemberById
  then show ?thesis by (simp add: RoomsController_removeMemberById_def Let_def shape_intros)
qed

lemma shape_clients: "shape (m = C_getCurrent) c (ClientController_call m args c)"
proof (cases m)
  case C_create
  then show ?thesis by (simp add: ClientController_create_def Let_def shape_intros)
next
  case C_upsert
  then show ?thesis by (simp add: ClientController_upsert_def Let_def shape_intros)
next
  case C_update
  then show ?thesis by (simp add: ClientController_update_def Let_def shape_intros)
next
  case C_delete
  then show ?thesis by (simp add: ClientController_delete_def Let_def shape_intros)
next
  case C_findByKey
  then show ?thesis by (simp add: ClientController_findByKey_def Let_def shape_intros)
next
  case C_getCurrent
  show ?thesis unfolding shape_def C_getCurrent
    by (rule disjI2, rule exI[of _ "get_prop ClientController_Events ''GET_CURRENT_CLIENT''"],
        rule exI[of _ JUndefined])
      (simp add: ClientController_getCurrent_def split_beta)
qed

lemma shape_facade: "shape (m = ClientsM C_getCurrent) c (facade_call m args c)"
  by (cases m) (simp_all add: shape_rooms shape_clients)

lemma shape_handlers: "shape asyn c rc \<Longrightarrow> lc_handlers (snd rc) = lc_handlers c"
  by (auto simp: shape_def send_def)

lemma facade_call_handlers: "lc_handlers (snd (facade_call m args c)) = lc_handlers c"
  using shape_facade by (rule shape_handlers)

lemma wf_Rooms_call: "wf w \<Longrightarrow> wf (snd (Rooms_call m args w))"
  using Rooms_call_frame[of m args w] facade_call_handlers[of "RoomsM m" args]
  by (auto simp: wf_def nth_list_update)

lemma wf_Clients_call: "wf w \<Longrightarrow> wf (snd (Clients_call m args w))"
  using Clients_call_frame[of m args w] facade_call_handlers[of "ClientsM m" args]
  by (auto simp: wf_def nth_list_update)

lemma emit_frame:
  "line_clients (emit em name args w) = line_clients w"
  "rooms_controllers (emit em name args w) = rooms_controllers w"
  "client_controllers (emit em name args w) = client_controllers w"
  "kit_client (emit em name args w) = kit_client w"
  "kit_Rooms (emit em name args w) = kit_Rooms w"
  "kit_Clients (emit em name args w) = kit_Clients w"
  "kit_listeners (emit em name args w) = kit_listeners w"
  "isConnected (emit em name args w) = isConnected w"
  by (simp_all add: emit_def)

lemma wf_emit: "wf (emit em name args w) = wf w"
  by (simp add: wf_def emit_frame)

lemma wf_isConnected_update: "wf (w\<lparr>isConnected := b\<rparr>) = wf w"
  by (simp add: wf_def)

lemma wf_run_handler: "wf w \<Longrightarrow> wf (snd (run_handler h args w))"
  by (cases h) (simp_all add: wf_emit wf_isConnected_update Let_def)

lemma wf_run_handlers: "wf w \<Longrightarrow> wf (snd (run_handlers hs args w))"
proof (induction hs arbitrary: w)
  case Nil
  then show ?case by simp
next
  case (Cons h hs)
  from wf_run_handler[OF Cons.prems, of h args] Cons.IH[of "snd (run_handler h args w)"]
  show ?case by (auto split: prod.split option.split)
qed

lemma wf_deliver: "wf w \<Longrightarrow> wf (snd (deliver cid ev args w))"
  by (simp add: deliver_def wf_run_handlers)

lemma wf_emitter_on: "wf w \<Longrightarrow> wf (emitter_on em name l w)"
  by (cases em) (auto simp: emitter_on_def wf_def nth_list_update)

lemma wf_step: "wf w \<Longrightarrow> wf (step w a)"
  by (cases a)
    (simp_all add: wf_connect wf_disconnect wf_deliver wf_Rooms_call wf_Clients_call
      wf_emitter_on split: option.split)

lemma wf_run: "wf w \<Longrightarrow> wf (run w as)"
  unfolding run_def by (induction as arbitrary: w) (simp_all add: wf_step)

lemma run_handler_isConnected:
  "isConnected (snd (run_handler h args w)) =
     (case h of KitConnected \<Rightarrow> True | KitDisconnected \<Rightarrow> False | _ \<Rightarrow> isConnected w)"
  by (cases h) (simp_all add: emit_frame Let_def)

lemma run_handlers_forwarders:
  assumes "\<forall>h \<in> set hs. h \<noteq> KitConnected \<and> h \<noteq> KitDisconnected"
  shows "isConnected (snd (run_handlers hs args w)) = isConnected w"
  using assms
proof (induction hs arbitrary: w)
  case Nil
  then show ?case by simp
next
  case (Cons h hs)
  have h: "isConnected (snd (run_handler h args w)) = isConnected w"
    using Cons.prems by (cases h) (simp_all add: emit_frame Let_def)
  show ?case
  proof (cases "run_handler h args w")
    case (Pair e w')
    with h have w': "isConnected w' = isConnected w" by simp
    show ?thesis
    proof (cases e)
      case None
      with Pair w' Cons.IH[of w'] Cons.prems show ?thesis by simp
    next
      case (Some err)
      with Pair w' show ?thesis by simp
    qed
  qed
qed

lemma subscribed_handlers:
  "map snd (filter (\<lambda>(e, h). e = LC_CONNECTED) (kit_subscriptions @ rooms_subscriptions i)) = [KitConnected]"
  "map snd (filter (\<lambda>(e, h). e = LC_DISCONNECTED) (kit_subscriptions @ rooms_subscriptions i)) = [KitDisconnected]"
  "map snd (filter (\<lambda>(e, h). e = LC_ERROR) (kit_subscriptions @ rooms_subscriptions i)) = [KitError]"
  "map snd (filter (\<lambda>(e, h). e = LC_CONNECTING_ERROR) (kit_subscriptions @ rooms_subscriptions i)) = [KitConnectingError]"
  by (simp_all add: kit_subscriptions_def rooms_subscriptions_def)

lemma subscribed_forwarders:
  "\<forall>h \<in> set (map snd (filter (\<lambda>(e, h). e = Message n) (kit_subscriptions @ rooms_subscriptions i))).
     h \<noteq> KitConnected \<and> h \<noteq> KitDisconnected"
  by (auto simp: kit_subscriptions_def rooms_subscriptions_def)

lemma deliver_isConnected:
  assumes "wf w"
  shows "isConnected (snd (deliver cid ev args w)) =
           (case lifecycle w (Deliver cid ev args) of Some b \<Rightarrow> b | None \<Rightarrow> isConnected w)"
proof (cases "cid < length (line_clients w)")
  case False
  then show ?thesis by (cases ev) (simp_all add: deliver_def)
next
  case True
  with assms have hs: "lc_handlers (line_clients w ! cid) = kit_subscriptions @ rooms_subscriptions cid"
    by (simp add: wf_def)
  show ?thesis
  proof (cases ev)
    case (Message n)
    with True hs run_handlers_forwarders[OF subscribed_forwarders, of n cid args w]
    show ?thesis by (simp add: deliver_def del: filter_append map_append)
  qed (use True hs in \<open>simp_all add: deliver_def subscribed_handlers emit_frame
        del: filter_append map_append\<close>)
qed

lemma emitter_on_isConnected: "isConnected (emitter_on em name l w) = isConnected w"
  by (cases em) (simp_all add: emitter_on_def)

lemma step_isConnected:
  assumes "wf w"
  shows "isConnected (step w a) = (case lifecycle w a of Some b \<Rightarrow> b | None \<Rightarrow> isConnected w)"
proof (cases a)
  case (Deliver cid ev args)
  with deliver_isConnected[OF assms, of cid ev args] show ?thesis by simp
qed (simp_all add: connect_isConnected disconnect_isConnected Rooms_call_isConnected
      Clients_call_isConnected emitter_on_isConnected split: option.split)

lemma run_isConnected:
  assumes "wf w"
  shows "isConnected (run w as) =
           (case last_lifecycle w as of Some b \<Rightarrow> b | None \<Rightarrow> isConnected w)"
  using assms
proof (induction as arbitrary: w)
  case Nil
  then show ?case by (simp add: run_def)
next
  case (Cons a as)
  have "run w (a # as) = run (step w a) as" by (simp add: run_def)
  with Cons.IH[OF wf_step[OF Cons.prems], of a] step_isConnected[OF Cons.prems, of a]
  show ?case by (simp split: option.split)
qed

lemma forwarder_subscribed:
  assumes "name \<in> {''room_event'', ''new_room_created'', ''joined_to_room'', ''room_updated''}"
  shows "map snd (filter (\<lambda>(e, h). e = Message (JStr name))
           (kit_subscriptions @ rooms_subscriptions i)) = [RoomsForward i (JStr name)]"
  using assms by (auto simp: kit_subscriptions_def rooms_subscriptions_def)

lemma facade_call_eta:
  "facade_call (RoomsM r) args = RoomsController_call r args"
  "facade_call (ClientsM k) args = ClientController_call k args"
  by (rule ext, simp)+

lemma listening_kit_eq:
  "listening_kit =
   \<lparr>kit_token = JStr ''abc'', kit_accountId = JNum 1,
      kit_endpoint = JStr ''wss://ws.socketkit.com'', kit_client = Some 0,
      isConnected = True, kit_Rooms = Some 0, kit_Clients = Some 0,
      kit_listeners = [],
      line_clients =
        [\<lparr>lc_endpoint = JStr ''wss://ws.socketkit.com'',
            lc_options =
              JObj
               [(''handshake'',
                 JObj
                  [(''payload'',
                    JObj
                     [(''accountId'', JNum 1), (''token'', JStr ''abc'')])])],
            lc_sent = [],
            lc_handlers = kit_subscriptions @ rooms_subscriptions 0,
            lc_connect_calls = 1, lc_disconnect_calls = 0\<rparr>],
      rooms_controllers =
        [\<lparr>rc_client = 0, rc_listeners = [(JStr ''new_room_created'', 7)]\<rparr>],
      client_controllers = [\<lparr>cc_client = 0, cc_listeners = []\<rparr>],
      emitted = [(KitEmitter, JStr ''connected'', [])], invoked = [],
      warnings = []\<rparr>"
  by (simp add: listening_kit_def run_def kit0_def connect_fresh emitter_on_def deliver_def
      subscribed_handlers emit_def listeners_of_def SocketKit_Event_def
      del: filter_append map_append)

section \<open>The claims about the facade methods\<close>

text \<open>
  C1 (missing required fields are rejected before any send). The code departs from
  this at \<^verbatim>\<open>sendMessageById\<close>: called without its options argument, with or without
  a room id, it throws a TypeError while binding its parameters instead of returning a
  promise rejected with the name of the first missing field (roomId, or text). No
  request is sent. For every other call the rejection holds: lemma
  \<open>missing_rejected\<close>.
\<close>

theorem sendMessageById_without_options_throws:
  "facade_call (RoomsM R_sendMessageById) [] c = (Throws TypeError, c)
  \<and> facade_call (RoomsM R_sendMessageById) [JNum 1] c = (Throws TypeError, c)
  \<and> first_missing (required (RoomsM R_sendMessageById) []) = Some ''roomId''
  \<and> first_missing (required (RoomsM R_sendMessageById) [JNum 1]) = Some ''text''"
  by (simp add: RoomsController_sendMessageById_def)

text \<open>
  C2, as amended (one request per validated call, on a documented event). When every
  required field of a facade operation is truthy and its options argument is not
  null: the two placeholders \<^verbatim>\<open>Rooms.deleteById\<close> and \<^verbatim>\<open>Rooms.removeMemberById\<close>, which
  have no required field, make no request and leave the transport as it was; every
  other operation makes exactly one request, the log of the transport growing by one
  entry. The event name of that request is one of the internal identifiers of
  section 6 of the specification, for the Rooms and for the Clients operations, except
  for \<^verbatim>\<open>Rooms.findById\<close>, whose event name is \<^verbatim>\<open>get_room_info\<close>, taken from the public
  table \<^verbatim>\<open>RoomsController.Events\<close>.
\<close>

theorem validated_call_sends_once:
  assumes "first_missing (required m args) = None"
    and "options_not_null m args"
  shows "if is_placeholder m then snd (facade_call m args c) = c
         else \<exists>ev payload.
           snd (facade_call m args c) = c\<lparr>lc_sent := lc_sent c @ [(ev, payload)]\<rparr>
         \<and> (if m = RoomsM R_findById then ev = JStr ''get_room_info''
            else ev \<in> set (documented_identifiers m))"
proof (cases "is_placeholder m")
  case True
  then show ?thesis by (simp only: placeholder_call snd_conv if_True)
next
  case False
  from validated_call_result[OF assms False, of c]
  obtain ev payload q c' where s: "send ev payload c = (q, c')"
    and r: "facade_call m args c =
             (Returns (RPromise (if m = ClientsM C_getCurrent then Async q else q)), c')"
    and e: "if m = RoomsM R_findById then ev = JStr ''get_room_info''
            else ev \<in> set (documented_identifiers m)"
    by (elim exE conjE)
  have "snd (facade_call m args c) = snd (send ev payload c)"
    by (simp only: r s snd_conv)
  also have "\<dots> = c\<lparr>lc_sent := lc_sent c @ [(ev, payload)]\<rparr>"
    by (simp only: send_def snd_conv)
  finally have 1: "snd (facade_call m args c) = c\<lparr>lc_sent := lc_sent c @ [(ev, payload)]\<rparr>" .
  have "\<exists>ev payload.
           snd (facade_call m args c) = c\<lparr>lc_sent := lc_sent c @ [(ev, payload)]\<rparr>
         \<and> (if m = RoomsM R_findById then ev = JStr ''get_room_info''
            else ev \<in> set (documented_identifiers m))"
    by (rule exI[of _ ev], rule exI[of _ payload], rule conjI, rule 1, rule e)
  with False show ?thesis by (simp only: if_False)
qed

theorem validated_call_sends_once_witness:
  "first_missing (required (RoomsM R_create) [JObj [(''title'', JStr ''T'')]]) = None
   \<and> options_not_null (RoomsM R_create) [JObj [(''title'', JStr ''T'')]]
   \<and> (\<exists>ev payload.
        snd (facade_call (RoomsM R_create) [JObj [(''title'', JStr ''T'')]] c0) =
          c0\<lparr>lc_sent := lc_sent c0 @ [(ev, payload)]\<rparr>
        \<and> ev \<in> set (documented_identifiers (RoomsM R_create)))
   \<and> first_missing (required (RoomsM R_deleteById) []) = None
   \<and> options_not_null (RoomsM R_deleteById) []
   \<and> snd (facade_call (RoomsM R_deleteById) [] c0) = c0"
proof -
  have a: "first_missing (required (RoomsM R_create) [JObj [(''title'', JStr ''T'')]]) = None"
    by simp
  have b: "options_not_null (RoomsM R_create) [JObj [(''title'', JStr ''T'')]]"
    by (simp add: options_not_null_def)
  have c: "\<exists>ev payload.
        snd (facade_call (RoomsM R_create) [JObj [(''title'', JStr ''T'')]] c0) =
          c0\<lparr>lc_sent := lc_sent c0 @ [(ev, payload)]\<rparr>
        \<and> ev \<in> set (documented_identifiers (RoomsM R_create))"
    using validated_call_sends_once[OF a b, of c0]
    by (simp only: is_placeholder.simps if_False facade_method.inject rooms_method.distinct)
  have d: "first_missing (required (RoomsM R_deleteById) []) = None"
    by simp
  have e: "options_not_null (RoomsM R_deleteById) []"
    by (simp add: options_not_null_def)
  have f: "snd (facade_call (RoomsM R_deleteById) [] c0) = c0"
    using validated_call_sends_once[OF d e, of c0]
    by (simp only: is_placeholder.simps if_True)
  show ?thesis by (intro conjI a b c d e f)
qed

text \<open>
  C2 as stated fails twice. At \<^verbatim>\<open>Rooms.findById(1)\<close> the only required field is
  present and the one request goes out on \<^verbatim>\<open>get_room_info\<close>, which is not among the
  internal identifiers of the Rooms. At \<^verbatim>\<open>Rooms.deleteById()\<close> no required field is
  missing and no request is made.
\<close>

theorem findById_event_not_internal:
  "lc_sent (snd (facade_call (RoomsM R_findById) [JNum 1] c0)) =
     [(JStr ''get_room_info'', JObj [(''roomId'', JNum 1)])]
   \<and> first_missing (required (RoomsM R_findById) [JNum 1]) = None
   \<and> JStr ''get_room_info'' \<notin> set (documented_identifiers (RoomsM R_findById))
   \<and> first_missing (required (RoomsM R_deleteById) []) = None
   \<and> lc_sent c0 = []
   \<and> lc_sent (snd (facade_call (RoomsM R_deleteById) [] c0)) = []"
  by (simp add: findById_sends return_send_eq c0_def new_LineClient_def
      section6_room_identifiers_def RoomsController_deleteById_def)

text \<open>
  C3 (defaults of \<^verbatim>\<open>Rooms.create\<close>). Called with an object that holds a truthy
  title and nothing else, \<^verbatim>\<open>create\<close> makes one request on \<^verbatim>\<open>create_room\<close> whose
  payload is exactly the title, \<^verbatim>\<open>private: false\<close>, \<^verbatim>\<open>allowPostsByDefault: true\<close>
  and \<^verbatim>\<open>properties: {}\<close>.
\<close>

theorem create_title_only_payload:
  assumes "truthy title"
  shows "RoomsController_call R_create [JObj [(''title'', title)]] c =
     (Returns (RPromise (SendFuture (length (lc_sent c)))),
      c\<lparr>lc_sent := lc_sent c @
         [(JStr ''create_room'',
           JObj [(''title'', title), (''private'', JBool False),
                 (''allowPostsByDefault'', JBool True), (''properties'', JObj [])])]\<rparr>)"
  using assms by (simp add: create_sends return_send_eq dflt_def)

theorem create_title_only_payload_witness:
  "truthy (JStr ''T'') \<and>
   RoomsController_call R_create [JObj [(''title'', JStr ''T'')]] c0 =
     (Returns (RPromise (SendFuture 0)),
      c0\<lparr>lc_sent :=
         [(JStr ''create_room'',
           JObj [(''title'', JStr ''T''), (''private'', JBool False),
                 (''allowPostsByDefault'', JBool True), (''properties'', JObj [])])]\<rparr>)"
  using create_title_only_payload[of "JStr ''T''" c0] by (simp add: c0_def new_LineClient_def)

text \<open>
  C4 (the upsert flag). With a truthy key, token and properties, \<^verbatim>\<open>Clients.upsert\<close>
  makes one request on \<^verbatim>\<open>add_client\<close> whose payload is the key, the token, the
  properties and \<^verbatim>\<open>upsert: true\<close>; \<^verbatim>\<open>Clients.create\<close> with a truthy key, token and
  properties makes one request on \<^verbatim>\<open>add_client\<close> whose payload is the key, the token
  and the properties, without the key \<^verbatim>\<open>upsert\<close>.
\<close>

theorem upsert_flag_distinguishes_create:
  assumes "truthy k" and "truthy (get_prop opts ''token'')" and "truthy (get_prop opts ''properties'')"
    and "truthy (get_prop copts ''uniqueClientKey'')" and "truthy (get_prop copts ''token'')"
    and "truthy (get_prop copts ''properties'')"
  shows "ClientController_call C_upsert [k, opts] c =
     (Returns (RPromise (SendFuture (length (lc_sent c)))),
      c\<lparr>lc_sent := lc_sent c @
         [(JStr ''add_client'',
           JObj [(''uniqueClientKey'', k), (''token'', get_prop opts ''token''),
                 (''properties'', get_prop opts ''properties''), (''upsert'', JBool True)])]\<rparr>)
   \<and> ClientController_call C_create [copts] c =
     (Returns (RPromise (SendFuture (length (lc_sent c)))),
      c\<lparr>lc_sent := lc_sent c @
         [(JStr ''add_client'',
           JObj [(''uniqueClientKey'', get_prop copts ''uniqueClientKey''),
                 (''token'', get_prop copts ''token''),
                 (''properties'', get_prop copts ''properties'')])]\<rparr>)"
  using assms by (simp add: upsert_sends Clients_create_sends return_send_eq)

theorem upsert_flag_distinguishes_create_witness:
  "ClientController_call C_upsert [JStr ''k'', JObj [(''token'', JStr ''t''), (''properties'', JObj [])]] c0 =
     (Returns (RPromise (SendFuture 0)),
      c0\<lparr>lc_sent :=
         [(JStr ''add_client'',
           JObj [(''uniqueClientKey'', JStr ''k''), (''token'', JStr ''t''),
                 (''properties'', JObj []), (''upsert'', JBool True)])]\<rparr>)
   \<and> ClientController_call C_create
       [JObj [(''uniqueClientKey'', JStr ''k''), (''token'', JStr ''t''), (''properties'', JObj [])]] c0 =
     (Returns (RPromise (SendFuture 0)),
      c0\<lparr>lc_sent :=
         [(JStr ''add_client'',
           JObj [(''uniqueClientKey'', JStr ''k''), (''token'', JStr ''t''),
                 (''properties'', JObj [])])]\<rparr>)"
  using upsert_flag_distinguishes_create[of "JStr ''k''" "JObj [(''token'', JStr ''t''), (''properties'', JObj [])]"
      "JObj [(''uniqueClientKey'', JStr ''k''), (''token'', JStr ''t''), (''properties'', JObj [])]" c0]
  by (simp add: c0_def new_LineClient_def)

text \<open>
  C6, as amended (the two placeholders). \<^verbatim>\<open>Rooms.deleteById\<close> and
  \<^verbatim>\<open>Rooms.removeMemberById\<close> are empty stubs: whatever the arguments, each returns
  undefined, makes no request and leaves the transport as it was.
\<close>

theorem placeholders_return_undefined:
  "RoomsController_call R_deleteById args c = (Returns RUndefined, c)
   \<and> RoomsController_call R_removeMemberById args c = (Returns RUndefined, c)"
  by (simp add: RoomsController_deleteById_def RoomsController_removeMemberById_def)

text \<open>
  C6 as stated fails: called without arguments, neither placeholder throws nor returns a
  rejected promise.
\<close>

theorem placeholders_do_not_fail:
  "\<not> fails_loudly (fst (RoomsController_call R_deleteById [] c0))
   \<and> \<not> fails_loudly (fst (RoomsController_call R_removeMemberById [] c0))"
  by (simp add: RoomsController_deleteById_def RoomsController_removeMemberById_def)

text \<open>
  C9 (the policy for properties differs between methods). With a truthy room id:
  \<^verbatim>\<open>updateById\<close> rejects with "title is required" when the title is absent or falsy;
  with a truthy title and properties omitted it sends \<^verbatim>\<open>properties: {}\<close>;
  \<^verbatim>\<open>updateMemberById\<close> sends the properties it was given, as they are, so undefined
  when they are omitted; \<^verbatim>\<open>addMemberById\<close> sends \<^verbatim>\<open>properties: {}\<close> when they are
  omitted.
\<close>

theorem properties_default_policy:
  assumes "truthy roomId"
  shows
   "(a \<noteq> JNull \<and> \<not> truthy (get_prop a ''title'') \<longrightarrow>
       RoomsController_call R_updateById [roomId, a] c =
         (Returns (RPromise (Rejected (Error ''title is required''))), c))
    \<and> (truthy (get_prop b ''title'') \<and> get_prop b ''properties'' = JUndefined \<longrightarrow>
       RoomsController_call R_updateById [roomId, b] c =
         (Returns (RPromise (SendFuture (length (lc_sent c)))),
          c\<lparr>lc_sent := lc_sent c @
            [(JStr ''update_room'',
              JObj [(''roomId'', roomId), (''title'', get_prop b ''title''),
                    (''properties'', JObj [])])]\<rparr>))
    \<and> (truthy (get_prop d ''targetUniqueClientKey'') \<longrightarrow>
       RoomsController_call R_updateMemberById [roomId, d] c =
         (Returns (RPromise (SendFuture (length (lc_sent c)))),
          c\<lparr>lc_sent := lc_sent c @
            [(JStr ''update_participant'',
              JObj [(''roomId'', roomId),
                    (''targetUniqueClientKey'', get_prop d ''targetUniqueClientKey''),
                    (''isAllowedToPost'', get_prop d ''isAllowedToPost''),
                    (''properties'', get_prop d ''properties'')])]\<rparr>))
    \<and> (truthy (get_prop e ''targetUniqueClientKey'') \<and> get_prop e ''properties'' = JUndefined \<longrightarrow>
       RoomsController_call R_addMemberById [roomId, e] c =
         (Returns (RPromise (SendFuture (length (lc_sent c)))),
          c\<lparr>lc_sent := lc_sent c @
            [(JStr ''add_participant'',
              JObj [(''roomId'', roomId),
                    (''targetUniqueClientKey'', get_prop e ''targetUniqueClientKey''),
                    (''isAllowedToPost'', get_prop e ''isAllowedToPost''),
                    (''properties'', JObj [])])]\<rparr>))"
proof (intro conjI impI)
  assume "a \<noteq> JNull \<and> \<not> truthy (get_prop a ''title'')"
  then show "RoomsController_call R_updateById [roomId, a] c =
         (Returns (RPromise (Rejected (Error ''title is required''))), c)"
    using assms missing_rejected[of "RoomsM R_updateById" "[roomId, a]" "''title''" c]
    by (simp add: options_not_null_def)
next
  assume "truthy (get_prop b ''title'') \<and> get_prop b ''properties'' = JUndefined"
  then show "RoomsController_call R_updateById [roomId, b] c =
         (Returns (RPromise (SendFuture (length (lc_sent c)))),
          c\<lparr>lc_sent := lc_sent c @
            [(JStr ''update_room'',
              JObj [(''roomId'', roomId), (''title'', get_prop b ''title''),
                    (''properties'', JObj [])])]\<rparr>)"
    using assms by (simp add: updateById_sends return_send_eq dflt_def)
next
  assume "truthy (get_prop d ''targetUniqueClientKey'')"
  then show "RoomsController_call R_updateMemberById [roomId, d] c =
         (Returns (RPromise (SendFuture (length (lc_sent c)))),
          c\<lparr>lc_sent := lc_sent c @
            [(JStr ''update_participant'',
              JObj [(''roomId'', roomId),
                    (''targetUniqueClientKey'', get_prop d ''targetUniqueClientKey''),
                    (''isAllowedToPost'', get_prop d ''isAllowedToPost''),
                    (''properties'', get_prop d ''properties'')])]\<rparr>)"
    using assms by (simp add: updateMemberById_sends return_send_eq)
next
  assume "truthy (get_prop e ''targetUniqueClientKey'') \<and> get_prop e ''properties'' = JUndefined"
  then show "RoomsController_call R_addMemberById [roomId, e] c =
         (Returns (RPromise (SendFuture (length (lc_sent c)))),
          c\<lparr>lc_sent := lc_sent c @
            [(JStr ''add_participant'',
              JObj [(''roomId'', roomId),
                    (''targetUniqueClientKey'', get_prop e ''targetUniqueClientKey''),
                    (''isAllowedToPost'', get_prop e ''isAllowedToPost''),
                    (''properties'', JObj [])])]\<rparr>)"
    using assms by (simp add: addMemberById_sends return_send_eq dflt_def)
qed

theorem properties_default_policy_witness:
  "truthy (JNum 1)
   \<and> RoomsController_call R_updateById [JNum 1, JObj []] c0 =
         (Returns (RPromise (Rejected (Error ''title is required''))), c0)
   \<and> RoomsController_call R_updateById [JNum 1, JObj [(''title'', JStr ''T'')]] c0 =
         (Returns (RPromise (SendFuture 0)),
          c0\<lparr>lc_sent :=
            [(JStr ''update_room'',
              JObj [(''roomId'', JNum 1), (''title'', JStr ''T''), (''properties'', JObj [])])]\<rparr>)
   \<and> RoomsController_call R_updateMemberById
        [JNum 1, JObj [(''targetUniqueClientKey'', JNum 15)]] c0 =
         (Returns (RPromise (SendFuture 0)),
          c0\<lparr>lc_sent :=
            [(JStr ''update_participant'',
              JObj [(''roomId'', JNum 1), (''targetUniqueClientKey'', JNum 15),
                    (''isAllowedToPost'', JUndefined), (''properties'', JUndefined)])]\<rparr>)
   \<and> RoomsController_call R_addMemberById
        [JNum 1, JObj [(''targetUniqueClientKey'', JNum 15)]] c0 =
         (Returns (RPromise (SendFuture 0)),
          c0\<lparr>lc_sent :=
            [(JStr ''add_participant'',
              JObj [(''roomId'', JNum 1), (''targetUniqueClientKey'', JNum 15),
                    (''isAllowedToPost'', JUndefined), (''properties'', JObj [])])]\<rparr>)"
  using properties_default_policy[where roomId = "JNum 1" and a = "JObj []" and b = "JObj [(''title'', JStr ''T'')]"
      and d = "JObj [(''targetUniqueClientKey'', JNum 15)]"
      and e = "JObj [(''targetUniqueClientKey'', JNum 15)]" and c = c0]
  by (simp add: c0_def new_LineClient_def)

text \<open>
  C10 (a room id of 0 is rejected as missing). The code departs from this at
  \<^verbatim>\<open>sendMessageById(0)\<close>: without the options argument the call throws a TypeError
  while binding its parameters, before the room id is tested. With the options
  argument given, the six operations reject a room id of 0 (lemma
  \<open>roomId_zero_rejected\<close>); an empty key is rejected (lemmas \<open>empty_key_rejected\<close>,
  \<open>create_empty_key_rejected\<close>) and empty properties pass (lemma
  \<open>empty_properties_pass\<close>).
\<close>

theorem sendMessageById_zero_roomId_throws:
  "facade_call (RoomsM R_sendMessageById) [JNum 0] c = (Throws TypeError, c)"
  by (simp add: RoomsController_sendMessageById_def)

section \<open>The claims about an instance\<close>

text \<open>
  C5 (the event router of the Rooms). In every state an instance can reach, for every
  Rooms controller ever constructed and each of the four internal events it subscribed
  to at construction, one delivery of that event by the controller's LineClient, with
  an envelope whose payload is p, completes without error and makes exactly one
  emission: by that controller, under the same name, with the single argument p, not
  the envelope. Every listener registered on the controller for that name is invoked
  with p; with no such listener nothing is invoked.
\<close>

theorem rooms_router_forwards_payload:
  assumes "new_SocketKit a0 = Inr w0" and "w = run w0 as"
    and "rid < length (rooms_controllers w)"
    and "name \<in> {''room_event'', ''new_room_created'', ''joined_to_room'', ''room_updated''}"
  shows "deliver (rc_client (rooms_controllers w ! rid)) (Message (JStr name))
           [JObj ((''payload'', p) # rest)] w =
         (None,
          w\<lparr>emitted := emitted w @ [(RoomsEmitter rid, JStr name, [p])],
            invoked := invoked w @
              map (\<lambda>(n, l). (l, [p]))
                (filter (\<lambda>(n, l). n = JStr name) (rc_listeners (rooms_controllers w ! rid)))\<rparr>)"
proof -
  have w: "wf w" using assms(1,2) by (simp add: wf_new wf_run)
  with assms(3) have rid: "rid < length (line_clients w)"
    and cl: "rc_client (rooms_controllers w ! rid) = rid"
    and hs: "lc_handlers (line_clients w ! rid) = kit_subscriptions @ rooms_subscriptions rid"
    by (simp_all add: wf_def)
  show ?thesis
    using rid assms(3)
    by (simp add: cl deliver_def hs forwarder_subscribed[OF assms(4)] emit_def listeners_of_def
        del: filter_append map_append)
qed

theorem rooms_router_forwards_payload_witness:
  "new_SocketKit (JObj [(''token'', JStr ''abc''), (''accountId'', JNum 1)]) = Inr kit0
   \<and> listening_kit = run kit0 [Connect, OnRooms (JStr ''new_room_created'') 7, Deliver 0 LC_CONNECTED []]
   \<and> 0 < length (rooms_controllers listening_kit)
   \<and> deliver 0 (Message (JStr ''new_room_created''))
        [JObj [(''payload'', JObj [(''id'', JNum 5)])]] listening_kit =
      (None,
       listening_kit\<lparr>
         emitted := [(KitEmitter, JStr ''connected'', []),
                     (RoomsEmitter 0, JStr ''new_room_created'', [JObj [(''id'', JNum 5)]])],
         invoked := [(7, [JObj [(''id'', JNum 5)]])]\<rparr>)
   \<and> deliver 0 (Message (JStr ''room_updated''))
        [JObj [(''payload'', JObj [(''id'', JNum 5)])]] listening_kit =
      (None,
       listening_kit\<lparr>
         emitted := [(KitEmitter, JStr ''connected'', []),
                     (RoomsEmitter 0, JStr ''room_updated'', [JObj [(''id'', JNum 5)]])],
         invoked := []\<rparr>)"
proof -
  have h: "listening_kit =
      run kit0 [Connect, OnRooms (JStr ''new_room_created'') 7, Deliver 0 LC_CONNECTED []]"
    by (fact listening_kit_def)
  have n: "0 < length (rooms_controllers listening_kit)"
    by (simp add: listening_kit_eq)
  have a: "deliver 0 (Message (JStr ''new_room_created''))
        [JObj [(''payload'', JObj [(''id'', JNum 5)])]] listening_kit =
      (None,
       listening_kit\<lparr>
         emitted := [(KitEmitter, JStr ''connected'', []),
                     (RoomsEmitter 0, JStr ''new_room_created'', [JObj [(''id'', JNum 5)]])],
         invoked := [(7, [JObj [(''id'', JNum 5)]])]\<rparr>)"
    using rooms_router_forwards_payload[OF kit0_new h n, of "''new_room_created''"
        "JObj [(''id'', JNum 5)]" "[]"]
    by (simp add: listening_kit_eq)
  have b: "deliver 0 (Message (JStr ''room_updated''))
        [JObj [(''payload'', JObj [(''id'', JNum 5)])]] listening_kit =
      (None,
       listening_kit\<lparr>
         emitted := [(KitEmitter, JStr ''connected'', []),
                     (RoomsEmitter 0, JStr ''room_updated'', [JObj [(''id'', JNum 5)]])],
         invoked := []\<rparr>)"
    using rooms_router_forwards_payload[OF kit0_new h n, of "''room_updated''"
        "JObj [(''id'', JNum 5)]" "[]"]
    by (simp add: listening_kit_eq)
  from kit0_new h n a b show ?thesis by blast
qed

text \<open>
  C7 (who writes isConnected). Along every history of an instance, from its
  construction on, isConnected is what the last CONNECTED or DISCONNECTED event
  delivered by one of its LineClients says, and false before the first. In any state,
  connect, disconnect and the methods of the two facades leave isConnected as it was.
\<close>

theorem isConnected_follows_lifecycle:
  assumes "new_SocketKit a0 = Inr w0"
  shows "isConnected (run w0 as) = (case last_lifecycle w0 as of Some b \<Rightarrow> b | None \<Rightarrow> False)
       \<and> isConnected (snd (connect w)) = isConnected w
       \<and> isConnected (snd (disconnect w)) = isConnected w
       \<and> isConnected (snd (instance_call m args w)) = isConnected w"
proof -
  have "isConnected w0 = False"
    using assms by (auto simp: new_SocketKit_def Let_def split: if_splits)
  moreover have "isConnected (snd (instance_call m args w)) = isConnected w"
    by (cases m) (simp_all add: Rooms_call_isConnected Clients_call_isConnected)
  ultimately show ?thesis
    using run_isConnected[OF wf_new[OF assms], of as]
    by (simp add: connect_isConnected disconnect_isConnected split: option.split)
qed

theorem isConnected_follows_lifecycle_witness:
  "new_SocketKit (JObj [(''token'', JStr ''abc''), (''accountId'', JNum 1)]) = Inr kit0
   \<and> isConnected (run kit0 [Connect, OnRooms (JStr ''new_room_created'') 7, Deliver 0 LC_CONNECTED []])
   \<and> isConnected (snd (connect listening_kit))
   \<and> isConnected (snd (disconnect listening_kit))
   \<and> isConnected (snd (instance_call (RoomsM R_findById) [JNum 1] listening_kit))"
  using isConnected_follows_lifecycle[OF kit0_new, of "[Connect, OnRooms (JStr ''new_room_created'') 7, Deliver 0 LC_CONNECTED []]"
      listening_kit "RoomsM R_findById" "[JNum 1]"]
    listening_kit_eq
  by (simp add: kit0_new listening_kit_def)

text \<open>
  C8, as amended (a validated call returns the future of send and changes nothing
  else). Take an instance in any state it can reach after a connect, so that its
  facades exist and \<^verbatim>\<open>client\<close> refers to a LineClient, and a facade method called with
  every required field truthy and an options argument that is not null. If the method
  is one of the two placeholders, it returns undefined and the instance is unchanged.
  Otherwise the instance changes by exactly one call of \<^verbatim>\<open>send\<close> on that LineClient
  and by nothing else. For every method but \<^verbatim>\<open>Clients.getCurrent\<close> the value returned
  is the future of that call itself; \<^verbatim>\<open>getCurrent\<close>, an async function, returns a new
  promise resolved with that future. In both cases the promise settles as the future
  does.
\<close>

theorem validated_call_returns_send_future:
  assumes "new_SocketKit a0 = Inr w0" and "w = run w0 as" and "kit_client w = Some cid"
    and "first_missing (required m args) = None" and "options_not_null m args"
  shows "if is_placeholder m then instance_call m args w = (Returns RUndefined, w)
         else \<exists>ev payload q c'.
           send ev payload (line_clients w ! cid) = (q, c')
         \<and> instance_call m args w =
             (Returns (RPromise (if m = ClientsM C_getCurrent then Async q else q)),
              w\<lparr>line_clients := (line_clients w)[cid := c']\<rparr>)
         \<and> (\<forall>reply. settle reply (if m = ClientsM C_getCurrent then Async q else q) =
                      settle reply q)"
proof -
  let ?c = "line_clients w ! cid"
  have w: "wf w" using assms(1,2) by (simp add: wf_new wf_run)
  with assms(3) have lt: "cid < length (line_clients w)"
    and kr: "kit_Rooms w = Some cid" and kc: "kit_Clients w = Some cid"
    by (auto simp: wf_def)
  with w have lr: "cid < length (rooms_controllers w)"
    and lc: "cid < length (client_controllers w)"
    and rc: "rc_client (rooms_controllers w ! cid) = cid"
    and cc: "cc_client (client_controllers w ! cid) = cid"
    by (simp_all add: wf_def)
  have ic: "instance_call m args w =
      (fst (facade_call m args ?c),
       w\<lparr>line_clients := (line_clients w)[cid := snd (facade_call m args ?c)]\<rparr>)"
    by (cases m)
      (simp_all add: Rooms_call_def Clients_call_def on_client_def kr kc lr lc rc cc lt
        split_beta)
  show ?thesis
  proof (cases "is_placeholder m")
    case True
    have "instance_call m args w = (Returns RUndefined, w)"
      by (simp add: ic placeholder_call[OF True])
    with True show ?thesis by (simp only: if_True)
  next
    case False
    from validated_call_result[OF assms(4,5) False, of ?c]
    obtain ev payload q c' where s: "send ev payload ?c = (q, c')"
      and r: "facade_call m args ?c =
               (Returns (RPromise (if m = ClientsM C_getCurrent then Async q else q)), c')"
      by (elim exE conjE)
    have 1: "instance_call m args w =
             (Returns (RPromise (if m = ClientsM C_getCurrent then Async q else q)),
              w\<lparr>line_clients := (line_clients w)[cid := c']\<rparr>)"
      by (simp only: ic r fst_conv snd_conv)
    have 2: "\<forall>reply. settle reply (if m = ClientsM C_getCurrent then Async q else q) =
                      settle reply q"
      by simp
    have "\<exists>ev payload q c'.
           send ev payload (line_clients w ! cid) = (q, c')
         \<and> instance_call m args w =
             (Returns (RPromise (if m = ClientsM C_getCurrent then Async q else q)),
              w\<lparr>line_clients := (line_clients w)[cid := c']\<rparr>)
         \<and> (\<forall>reply. settle reply (if m = ClientsM C_getCurrent then Async q else q) =
                      settle reply q)"
      by (rule exI[of _ ev], rule exI[of _ payload], rule exI[of _ q], rule exI[of _ c'],
          intro conjI s 1 2)
    with False show ?thesis by (simp only: if_False)
  qed
qed

theorem validated_call_returns_send_future_witness:
  "new_SocketKit (JObj [(''token'', JStr ''abc''), (''accountId'', JNum 1)]) = Inr kit0
   \<and> kit_client listening_kit = Some 0
   \<and> first_missing (required (RoomsM R_findById) [JNum 1]) = None
   \<and> options_not_null (RoomsM R_findById) [JNum 1]
   \<and> (\<exists>ev payload q c'.
           send ev payload (line_clients listening_kit ! 0) = (q, c')
         \<and> instance_call (RoomsM R_findById) [JNum 1] listening_kit =
             (Returns (RPromise q),
              listening_kit\<lparr>line_clients := (line_clients listening_kit)[0 := c']\<rparr>))
   \<and> first_missing (required (ClientsM C_getCurrent) []) = None
   \<and> options_not_null (ClientsM C_getCurrent) []
   \<and> (\<exists>ev payload q c'.
           send ev payload (line_clients listening_kit ! 0) = (q, c')
         \<and> instance_call (ClientsM C_getCurrent) [] listening_kit =
             (Returns (RPromise (Async q)),
              listening_kit\<lparr>line_clients := (line_clients listening_kit)[0 := c']\<rparr>))"
proof -
  have k: "kit_client listening_kit = Some 0"
    by (simp add: listening_kit_eq)
  have a: "first_missing (required (RoomsM R_findById) [JNum 1]) = None"
    by simp
  have b: "options_not_null (RoomsM R_findById) [JNum 1]"
    by (simp add: options_not_null_def)
  have c: "\<exists>ev payload q c'.
           send ev payload (line_clients listening_kit ! 0) = (q, c')
         \<and> instance_call (RoomsM R_findById) [JNum 1] listening_kit =
             (Returns (RPromise q),
              listening_kit\<lparr>line_clients := (line_clients listening_kit)[0 := c']\<rparr>)"
    using validated_call_returns_send_future[OF kit0_new listening_kit_def k a b]
    by (simp only: is_placeholder.simps if_False facade_method.distinct) blast
  have d: "first_missing (required (ClientsM C_getCurrent) []) = None"
    by simp
  have e: "options_not_null (ClientsM C_getCurrent) []"
    by (simp add: options_not_null_def)
  have f: "\<exists>ev payload q c'.
           send ev payload (line_clients listening_kit ! 0) = (q, c')
         \<and> instance_call (ClientsM C_getCurrent) [] listening_kit =
             (Returns (RPromise (Async q)),
              listening_kit\<lparr>line_clients := (line_clients listening_kit)[0 := c']\<rparr>)"
    using validated_call_returns_send_future[OF kit0_new listening_kit_def k d e]
    by (simp only: is_placeholder.simps if_False if_True refl) blast
  show ?thesis by (intro conjI kit0_new k a b c d e f)
qed

text \<open>
  C8 as stated fails twice. At \<^verbatim>\<open>Clients.getCurrent()\<close> the value returned is not the
  future that send produced but a promise wrapped around it. At
  \<^verbatim>\<open>Rooms.deleteById()\<close>, which has no field to validate, the value returned is
  undefined and nothing is sent.
\<close>

theorem getCurrent_returns_new_promise:
  "fst (facade_call (ClientsM C_getCurrent) [] c0) = Returns (RPromise (Async (SendFuture 0)))
   \<and> fst (send (JStr ''get_current_client'') JUndefined c0) = SendFuture 0
   \<and> fst (facade_call (ClientsM C_getCurrent) [] c0)
       \<noteq> Returns (RPromise (fst (send (JStr ''get_current_client'') JUndefined c0)))
   \<and> first_missing (required (RoomsM R_deleteById) []) = None
   \<and> fst (facade_call (RoomsM R_deleteById) [] c0) = Returns RUndefined
   \<and> snd (facade_call (RoomsM R_deleteById) [] c0) = c0"
  by (simp add: getCurrent_sends send_def c0_def new_LineClient_def
      RoomsController_deleteById_def)

end
